theory Spec2Isabelle
  imports Main "HOL-Library.Log_Nat"
begin

section \<open>Python values used by the monitor\<close>

text \<open>
  The exceptions that the modelled code can raise or catch. \<open>PermissionError\<close> is the
  one \<open>disk_info\<close> catches; \<open>OSError\<close> stands for any other failure of an operating
  system query; \<open>OverflowError\<close> is raised when an integer does not fit a float;
  \<open>AttributeError\<close> is raised by an attribute access on \<open>None\<close>.
\<close>

datatype exn = OverflowError | AttributeError | PermissionError | OSError

text \<open>
  A Python float is an IEEE 754 double. \<open>Finite neg m e\<close> is the double of sign \<open>neg\<close>
  and magnitude \<open>m * 2 ^ e\<close> (sign and magnitude are kept apart, so that \<open>-0.0\<close> is
  \<open>Finite True 0 0\<close>); \<open>Infinity neg\<close> and \<open>NaN\<close> are the special values.
  A Python number handed to \<open>get_size\<close> is an unbounded int or a float.
\<close>

datatype pyfloat = Finite bool int int | Infinity bool | NaN

datatype pynum = PyInt int | PyFloat pyfloat

subsection \<open>Rounding to the nearest double\<close>

text \<open>
  \<open>div_half_even a b\<close> is the quotient \<open>a / b\<close> of a non-negative \<open>a\<close> by a positive
  \<open>b\<close>, rounded to the nearest integer, a tie going to the even neighbour.
  \<open>scaled_half_even a b k\<close> rounds \<open>a / b * 2 ^ k\<close> in the same way.
\<close>

definition half_even :: "int \<Rightarrow> int \<Rightarrow> int \<Rightarrow> int" where
  "half_even q r2 d = (if r2 < d then q else if d < r2 then q + 1 else if even q then q else q + 1)"

definition div_half_even :: "int \<Rightarrow> int \<Rightarrow> int" where
  "div_half_even a b = half_even (a div b) (2 * (a mod b)) b"

definition scaled_half_even :: "int \<Rightarrow> int \<Rightarrow> int \<Rightarrow> int" where
  "scaled_half_even a b k =
     (if 0 \<le> k then div_half_even (a * 2 ^ nat k) b else div_half_even a (b * 2 ^ nat (- k)))"

text \<open>
  \<open>flog2 a b\<close> is the binary exponent of the positive ratio \<open>a / b\<close>: the \<open>d\<close> with
  \<open>2 ^ d \<le> a / b < 2 ^ (d + 1)\<close>. The difference of the bit lengths is that exponent
  or one more.
\<close>

definition ratio_ge_pow2 :: "int \<Rightarrow> int \<Rightarrow> int \<Rightarrow> bool" where
  "ratio_ge_pow2 a b d = (if 0 \<le> d then b * 2 ^ nat d \<le> a else b \<le> a * 2 ^ nat (- d))"

definition flog2_at :: "int \<Rightarrow> int \<Rightarrow> int \<Rightarrow> int" where
  "flog2_at a b d = (if ratio_ge_pow2 a b d then d else d - 1)"

definition flog2 :: "int \<Rightarrow> int \<Rightarrow> int" where
  "flog2 a b = flog2_at a b (bitlen a - bitlen b)"

text \<open>
  \<open>round_double a b e\<close> is the double nearest to \<open>a / b * 2 ^ e\<close> (\<open>a \<ge> 0\<close>, \<open>b > 0\<close>),
  as mantissa and exponent: the value is rounded, ties to even, to a multiple of the unit
  in the last place \<open>2 ^ u\<close>, where \<open>u\<close> is 52 below the binary exponent of the value
  and never below that of the subnormal numbers. The result is \<open>None\<close> when the rounded
  value reaches \<open>2 ^ 1024\<close>, beyond the largest double.
\<close>

definition fits_double :: "int \<Rightarrow> int \<Rightarrow> (int \<times> int) option" where
  "fits_double n u = (if 1024 < u + bitlen n then None else Some (n, u))"

definition round_at :: "int \<Rightarrow> int \<Rightarrow> int \<Rightarrow> int \<Rightarrow> (int \<times> int) option" where
  "round_at a b e u = fits_double (scaled_half_even a b (e - u)) u"

definition round_double :: "int \<Rightarrow> int \<Rightarrow> int \<Rightarrow> (int \<times> int) option" where
  "round_double a b e =
     (if a = 0 then Some (0, 0)
      else round_at a b e (max (flog2 a b + e) (- 1022) - 52))"

text \<open>Conversion of an int to a float, as the format specification \<open>.2f\<close> does it.\<close>

definition int_to_float :: "int \<Rightarrow> exn + pyfloat" where
  "int_to_float n =
     (case round_double \<bar>n\<bar> 1 0 of
        None \<Rightarrow> Inl OverflowError
      | Some (m, e) \<Rightarrow> Inr (Finite (n < 0) m e))"

subsection \<open>Rendering numbers\<close>

definition digit_char :: "int \<Rightarrow> char" where
  "digit_char d = ''0123456789'' ! nat d"

function str_digits :: "int \<Rightarrow> string" where
  "str_digits n =
     (if n < 10 then [digit_char n] else str_digits (n div 10) @ [digit_char (n mod 10)])"
  by pat_completeness auto
termination
  by (relation "measure nat") auto

text \<open>\<open>str(i)\<close> of a Python int.\<close>

definition str_int :: "int \<Rightarrow> string" where
  "str_int i = (if i < 0 then ''-'' @ str_digits (- i) else str_digits i)"

text \<open>
  \<open>fixed2 neg h\<close> writes \<open>h\<close> hundredths with two decimals. \<open>format_2f\<close> is the format
  specification \<open>.2f\<close> on a float: the exact value of the double, rounded to hundredths,
  ties to even; the sign is that of the double, also when the digits are all zero.
\<close>

definition fixed2 :: "bool \<Rightarrow> int \<Rightarrow> string" where
  "fixed2 neg h =
     (if neg then ''-'' else '''') @ str_digits (h div 100) @ ''.''
     @ [digit_char (h div 10 mod 10), digit_char (h mod 10)]"

definition format_2f :: "pyfloat \<Rightarrow> string" where
  "format_2f x =
     (case x of
        Finite neg m e \<Rightarrow> fixed2 neg (scaled_half_even (m * 100) 1 e)
      | Infinity neg \<Rightarrow> (if neg then ''-inf'' else ''inf'')
      | NaN \<Rightarrow> ''nan'')"

text \<open>\<open>f'{bytes:.2f}'\<close>: an int is converted to a float first.\<close>

definition format_2f_num :: "pynum \<Rightarrow> exn + string" where
  "format_2f_num bytes =
     (case bytes of
        PyInt n \<Rightarrow> (case int_to_float n of Inl e \<Rightarrow> Inl e | Inr x \<Rightarrow> Inr (format_2f x))
      | PyFloat x \<Rightarrow> Inr (format_2f x))"

text \<open>\<open>str(v)\<close> of a value that may be \<open>None\<close>.\<close>

definition str_opt :: "string option \<Rightarrow> string" where
  "str_opt v = (case v of None \<Rightarrow> ''None'' | Some s \<Rightarrow> s)"

definition str_int_opt :: "int option \<Rightarrow> string" where
  "str_int_opt v = (case v of None \<Rightarrow> ''None'' | Some i \<Rightarrow> str_int i)"

section \<open>The size formatter \<open>get_size\<close>\<close>

text \<open>
  \<^verbatim>\<open>factor = 1024\<close>. The comparison \<open>bytes < factor\<close> of Python is exact for ints and
  floats alike; it is false for \<open>NaN\<close>.
\<close>

definition factor :: int where
  "factor = 1024"

definition lt_factor :: "pynum \<Rightarrow> bool" where
  "lt_factor bytes =
     (case bytes of
        PyInt n \<Rightarrow> n < factor
      | PyFloat (Finite neg m e) \<Rightarrow>
          (if neg then True
           else if 0 \<le> e then m * 2 ^ nat e < factor
           else m < factor * 2 ^ nat (- e))
      | PyFloat (Infinity neg) \<Rightarrow> neg
      | PyFloat NaN \<Rightarrow> False)"

text \<open>
  \<^verbatim>\<open>bytes /= factor\<close>, true division. The quotient of two ints is the double
  nearest to the exact quotient, and \<open>OverflowError\<close> when there is none; a float is
  divided by the float \<open>1024.0\<close> under the IEEE rules.
\<close>

definition div_factor :: "pynum \<Rightarrow> exn + pyfloat" where
  "div_factor bytes =
     (case bytes of
        PyInt n \<Rightarrow>
          (case round_double \<bar>n\<bar> factor 0 of
             None \<Rightarrow> Inl OverflowError
           | Some (m, e) \<Rightarrow> Inr (Finite (n < 0) m e))
      | PyFloat (Finite neg m e) \<Rightarrow>
          (case round_double m factor e of
             None \<Rightarrow> Inr (Infinity neg)
           | Some (m', e') \<Rightarrow> Inr (Finite neg m' e'))
      | PyFloat (Infinity neg) \<Rightarrow> Inr (Infinity neg)
      | PyFloat NaN \<Rightarrow> Inr NaN)"

text \<open>
  The loop \<^verbatim>\<open>for unit in ["", "K", "M", "G", "T", "P"]\<close>, by recursion on the units
  that remain. When the units are used up the function ends without a \<open>return\<close>
  statement, so its value is \<open>None\<close>.
\<close>

fun get_size_loop :: "pynum \<Rightarrow> string \<Rightarrow> string list \<Rightarrow> exn + string option" where
  "get_size_loop bytes suffix [] = Inr None"
| "get_size_loop bytes suffix (unit # units) =
     (if lt_factor bytes
      then (case format_2f_num bytes of
              Inl e \<Rightarrow> Inl e
            | Inr s \<Rightarrow> Inr (Some (s @ unit @ suffix)))
      else (case div_factor bytes of
              Inl e \<Rightarrow> Inl e
            | Inr b \<Rightarrow> get_size_loop (PyFloat b) suffix units))"

definition get_size :: "pynum \<Rightarrow> string \<Rightarrow> exn + string option" where
  "get_size bytes suffix = get_size_loop bytes suffix ['''', ''K'', ''M'', ''G'', ''T'', ''P'']"

text \<open>
  \<^verbatim>\<open>{get_size(x)}\<close> inside an f-string, with the default suffix: the returned value is
  rendered with \<open>str\<close>, an exception leaves the f-string unevaluated.
\<close>

definition str_get_size :: "pynum \<Rightarrow> exn + string" where
  "str_get_size x = (case get_size x ''B'' of Inl e \<Rightarrow> Inl e | Inr v \<Rightarrow> Inr (str_opt v))"

section \<open>The texts of the output\<close>

text \<open>
  The literal texts of the source, as the bytes of their UTF-8 encoding (the source file
  declares that coding), each with the number of the source line that holds it and an
  English gloss.
\<close>

text \<open>Line 68: \<open>Information about the system\<close>.\<close>

definition txt_system_header :: string where
  "txt_system_header =
     [CHR 0xD0, CHR 0x98, CHR 0xD0, CHR 0xBD, CHR 0xD1, CHR 0x84, CHR 0xD0, CHR 0xBE, CHR 0xD1,
      CHR 0x80, CHR 0xD0, CHR 0xBC, CHR 0xD0, CHR 0xB0, CHR 0xD1, CHR 0x86, CHR 0xD0, CHR 0xB8,
      CHR 0xD1, CHR 0x8F, CHR 0x20, CHR 0xD0, CHR 0xBE, CHR 0x20, CHR 0xD1, CHR 0x81, CHR 0xD0,
      CHR 0xB8, CHR 0xD1, CHR 0x81, CHR 0xD1, CHR 0x82, CHR 0xD0, CHR 0xB5, CHR 0xD0, CHR 0xBC,
      CHR 0xD0, CHR 0xB5]"

text \<open>Line 70: \<open>System: \<close>.\<close>

definition txt_system :: string where
  "txt_system =
     [CHR 0xD0, CHR 0xA1, CHR 0xD0, CHR 0xB8, CHR 0xD1, CHR 0x81, CHR 0xD1, CHR 0x82, CHR 0xD0,
      CHR 0xB5, CHR 0xD0, CHR 0xBC, CHR 0xD0, CHR 0xB0, CHR 0x3A, CHR 0x20]"

text \<open>Line 71: \<open>Network node name: \<close>.\<close>

definition txt_node :: string where
  "txt_node =
     [CHR 0xD0, CHR 0x98, CHR 0xD0, CHR 0xBC, CHR 0xD1, CHR 0x8F, CHR 0x20, CHR 0xD1, CHR 0x81,
      CHR 0xD0, CHR 0xB5, CHR 0xD1, CHR 0x82, CHR 0xD0, CHR 0xB5, CHR 0xD0, CHR 0xB2, CHR 0xD0,
      CHR 0xBE, CHR 0xD0, CHR 0xB3, CHR 0xD0, CHR 0xBE, CHR 0x20, CHR 0xD1, CHR 0x83, CHR 0xD0,
      CHR 0xB7, CHR 0xD0, CHR 0xBB, CHR 0xD0, CHR 0xB0, CHR 0x3A, CHR 0x20]"

text \<open>Line 72: \<open>Release: \<close>.\<close>

definition txt_release :: string where
  "txt_release =
     [CHR 0xD0, CHR 0x92, CHR 0xD1, CHR 0x8B, CHR 0xD0, CHR 0xBF, CHR 0xD1, CHR 0x83, CHR 0xD1,
      CHR 0x81, CHR 0xD0, CHR 0xBA, CHR 0x3A, CHR 0x20]"

text \<open>Line 73: \<open>Version: \<close>.\<close>

definition txt_version :: string where
  "txt_version =
     [CHR 0xD0, CHR 0x92, CHR 0xD0, CHR 0xB5, CHR 0xD1, CHR 0x80, CHR 0xD1, CHR 0x81, CHR 0xD0,
      CHR 0xB8, CHR 0xD1, CHR 0x8F, CHR 0x3A, CHR 0x20]"

text \<open>Line 74: \<open>Machine: \<close>.\<close>

definition txt_machine :: string where
  "txt_machine =
     [CHR 0xD0, CHR 0x9C, CHR 0xD0, CHR 0xB0, CHR 0xD1, CHR 0x88, CHR 0xD0, CHR 0xB8, CHR 0xD0,
      CHR 0xBD, CHR 0xD0, CHR 0xB0, CHR 0x3A, CHR 0x20]"

text \<open>Line 75: \<open>Processor: \<close>.\<close>

definition txt_processor :: string where
  "txt_processor =
     [CHR 0xD0, CHR 0x9F, CHR 0xD1, CHR 0x80, CHR 0xD0, CHR 0xBE, CHR 0xD1, CHR 0x86, CHR 0xD0,
      CHR 0xB5, CHR 0xD1, CHR 0x81, CHR 0xD1, CHR 0x81, CHR 0xD0, CHR 0xBE, CHR 0xD1, CHR 0x80,
      CHR 0x3A, CHR 0x20]"

text \<open>Line 79: \<open>Information about the processor\<close>.\<close>

definition txt_proc_header :: string where
  "txt_proc_header =
     [CHR 0xD0, CHR 0x98, CHR 0xD0, CHR 0xBD, CHR 0xD1, CHR 0x84, CHR 0xD0, CHR 0xBE, CHR 0xD1,
      CHR 0x80, CHR 0xD0, CHR 0xBC, CHR 0xD0, CHR 0xB0, CHR 0xD1, CHR 0x86, CHR 0xD0, CHR 0xB8,
      CHR 0xD1, CHR 0x8F, CHR 0x20, CHR 0xD0, CHR 0xBE, CHR 0x20, CHR 0xD0, CHR 0xBF, CHR 0xD1,
      CHR 0x80, CHR 0xD0, CHR 0xBE, CHR 0xD1, CHR 0x86, CHR 0xD0, CHR 0xB5, CHR 0xD1, CHR 0x81,
      CHR 0xD1, CHR 0x81, CHR 0xD0, CHR 0xBE, CHR 0xD1, CHR 0x80, CHR 0xD0, CHR 0xB5]"

text \<open>Line 81: \<open>Physical cores: \<close>.\<close>

definition txt_physical_cores :: string where
  "txt_physical_cores =
     [CHR 0xD0, CHR 0xA4, CHR 0xD0, CHR 0xB8, CHR 0xD0, CHR 0xB7, CHR 0xD0, CHR 0xB8, CHR 0xD1,
      CHR 0x87, CHR 0xD0, CHR 0xB5, CHR 0xD1, CHR 0x81, CHR 0xD0, CHR 0xBA, CHR 0xD0, CHR 0xB8,
      CHR 0xD0, CHR 0xB5, CHR 0x20, CHR 0xD1, CHR 0x8F, CHR 0xD0, CHR 0xB4, CHR 0xD1, CHR 0x80,
      CHR 0xD0, CHR 0xB0, CHR 0x3A, CHR 0x20]"

text \<open>Line 82: \<open>Number of cores: \<close>.\<close>

definition txt_logical_cores :: string where
  "txt_logical_cores =
     [CHR 0xD0, CHR 0x9A, CHR 0xD0, CHR 0xBE, CHR 0xD0, CHR 0xBB, CHR 0xD0, CHR 0xB8, CHR 0xD1,
      CHR 0x87, CHR 0xD0, CHR 0xB5, CHR 0xD1, CHR 0x81, CHR 0xD1, CHR 0x82, CHR 0xD0, CHR 0xB2,
      CHR 0xD0, CHR 0xBE, CHR 0x20, CHR 0xD1, CHR 0x8F, CHR 0xD0, CHR 0xB4, CHR 0xD0, CHR 0xB5,
      CHR 0xD1, CHR 0x80, CHR 0x3A, CHR 0x20]"

text \<open>Line 83: \<open>Maximal processor frequency: \<close>.\<close>

definition txt_freq_max :: string where
  "txt_freq_max =
     [CHR 0xD0, CHR 0x9C, CHR 0xD0, CHR 0xB0, CHR 0xD1, CHR 0x81, CHR 0xD0, CHR 0xBA, CHR 0xD0,
      CHR 0xB8, CHR 0xD0, CHR 0xBC, CHR 0xD0, CHR 0xB0, CHR 0xD0, CHR 0xBB, CHR 0xD1, CHR 0x8C,
      CHR 0xD0, CHR 0xBD, CHR 0xD0, CHR 0xB0, CHR 0xD1, CHR 0x8F, CHR 0x20, CHR 0xD1, CHR 0x87,
      CHR 0xD0, CHR 0xB0, CHR 0xD1, CHR 0x81, CHR 0xD1, CHR 0x82, CHR 0xD0, CHR 0xBE, CHR 0xD1,
      CHR 0x82, CHR 0xD0, CHR 0xB0, CHR 0x20, CHR 0xD0, CHR 0xBF, CHR 0xD1, CHR 0x80, CHR 0xD0,
      CHR 0xBE, CHR 0xD1, CHR 0x86, CHR 0xD0, CHR 0xB5, CHR 0xD1, CHR 0x81, CHR 0xD1, CHR 0x81,
      CHR 0xD0, CHR 0xBE, CHR 0xD1, CHR 0x80, CHR 0xD0, CHR 0xB0, CHR 0x3A, CHR 0x20]"

text \<open>Line 83: \<open>MHz\<close>.\<close>

definition txt_mhz :: string where
  "txt_mhz =
     [CHR 0xD0, CHR 0x9C, CHR 0xD0, CHR 0x93, CHR 0xD1, CHR 0x86]"

text \<open>Line 84: \<open>Minimal processor frequency: \<close>.\<close>

definition txt_freq_min :: string where
  "txt_freq_min =
     [CHR 0xD0, CHR 0x9C, CHR 0xD0, CHR 0xB8, CHR 0xD0, CHR 0xBD, CHR 0xD0, CHR 0xB8, CHR 0xD0,
      CHR 0xBC, CHR 0xD0, CHR 0xB0, CHR 0xD0, CHR 0xBB, CHR 0xD1, CHR 0x8C, CHR 0xD0, CHR 0xBD,
      CHR 0xD0, CHR 0xB0, CHR 0xD1, CHR 0x8F, CHR 0x20, CHR 0xD1, CHR 0x87, CHR 0xD0, CHR 0xB0,
      CHR 0xD1, CHR 0x81, CHR 0xD1, CHR 0x82, CHR 0xD0, CHR 0xBE, CHR 0xD1, CHR 0x82, CHR 0xD0,
      CHR 0xB0, CHR 0x20, CHR 0xD0, CHR 0xBF, CHR 0xD1, CHR 0x80, CHR 0xD0, CHR 0xBE, CHR 0xD1,
      CHR 0x86, CHR 0xD0, CHR 0xB5, CHR 0xD1, CHR 0x81, CHR 0xD1, CHR 0x81, CHR 0xD0, CHR 0xBE,
      CHR 0xD1, CHR 0x80, CHR 0xD0, CHR 0xB0, CHR 0x3A, CHR 0x20]"

text \<open>Line 85: \<open>Current processor frequency: \<close>.\<close>

definition txt_freq_current :: string where
  "txt_freq_current =
     [CHR 0xD0, CHR 0xA2, CHR 0xD0, CHR 0xB5, CHR 0xD0, CHR 0xBA, CHR 0xD1, CHR 0x83, CHR 0xD1,
      CHR 0x89, CHR 0xD0, CHR 0xB0, CHR 0xD1, CHR 0x8F, CHR 0x20, CHR 0xD1, CHR 0x87, CHR 0xD0,
      CHR 0xB0, CHR 0xD1, CHR 0x81, CHR 0xD1, CHR 0x82, CHR 0xD0, CHR 0xBE, CHR 0xD1, CHR 0x82,
      CHR 0xD0, CHR 0xB0, CHR 0x20, CHR 0xD0, CHR 0xBF, CHR 0xD1, CHR 0x80, CHR 0xD0, CHR 0xBE,
      CHR 0xD1, CHR 0x86, CHR 0xD0, CHR 0xB5, CHR 0xD1, CHR 0x81, CHR 0xD1, CHR 0x81, CHR 0xD0,
      CHR 0xBE, CHR 0xD1, CHR 0x80, CHR 0xD0, CHR 0xB0, CHR 0x3A, CHR 0x20]"

text \<open>Line 87: \<open>Load of core \<close>.\<close>

definition txt_core_load :: string where
  "txt_core_load =
     [CHR 0xD0, CHR 0x97, CHR 0xD0, CHR 0xB0, CHR 0xD0, CHR 0xB3, CHR 0xD1, CHR 0x80, CHR 0xD1,
      CHR 0x83, CHR 0xD0, CHR 0xB6, CHR 0xD0, CHR 0xB5, CHR 0xD0, CHR 0xBD, CHR 0xD0, CHR 0xBD,
      CHR 0xD0, CHR 0xBE, CHR 0xD1, CHR 0x81, CHR 0xD1, CHR 0x82, CHR 0xD1, CHR 0x8C, CHR 0x20,
      CHR 0xD1, CHR 0x8F, CHR 0xD0, CHR 0xB4, CHR 0xD1, CHR 0x80, CHR 0xD0, CHR 0xB0, CHR 0x20]"

text \<open>Line 88: \<open>Total processor load: \<close>.\<close>

definition txt_total_load :: string where
  "txt_total_load =
     [CHR 0xD0, CHR 0x9E, CHR 0xD0, CHR 0xB1, CHR 0xD1, CHR 0x89, CHR 0xD0, CHR 0xB0, CHR 0xD1,
      CHR 0x8F, CHR 0x20, CHR 0xD0, CHR 0xB7, CHR 0xD0, CHR 0xB0, CHR 0xD0, CHR 0xB3, CHR 0xD1,
      CHR 0x80, CHR 0xD1, CHR 0x83, CHR 0xD0, CHR 0xB6, CHR 0xD0, CHR 0xB5, CHR 0xD0, CHR 0xBD,
      CHR 0xD0, CHR 0xBD, CHR 0xD0, CHR 0xBE, CHR 0xD1, CHR 0x81, CHR 0xD1, CHR 0x82, CHR 0xD1,
      CHR 0x8C, CHR 0x20, CHR 0xD0, CHR 0xBF, CHR 0xD1, CHR 0x80, CHR 0xD0, CHR 0xBE, CHR 0xD1,
      CHR 0x86, CHR 0xD0, CHR 0xB5, CHR 0xD1, CHR 0x81, CHR 0xD1, CHR 0x81, CHR 0xD0, CHR 0xBE,
      CHR 0xD1, CHR 0x80, CHR 0xD0, CHR 0xB0, CHR 0x3A, CHR 0x20]"

text \<open>Line 92: \<open>Information about the network\<close>.\<close>

definition txt_network_header :: string where
  "txt_network_header =
     [CHR 0xD0, CHR 0x98, CHR 0xD0, CHR 0xBD, CHR 0xD1, CHR 0x84, CHR 0xD0, CHR 0xBE, CHR 0xD1,
      CHR 0x80, CHR 0xD0, CHR 0xBC, CHR 0xD0, CHR 0xB0, CHR 0xD1, CHR 0x86, CHR 0xD0, CHR 0xB8,
      CHR 0xD1, CHR 0x8F, CHR 0x20, CHR 0xD0, CHR 0xBE, CHR 0x20, CHR 0xD1, CHR 0x81, CHR 0xD0,
      CHR 0xB5, CHR 0xD1, CHR 0x82, CHR 0xD0, CHR 0xB8]"

text \<open>Line 96: \<open>Information about network interface: \<close>.\<close>

definition txt_interface_header :: string where
  "txt_interface_header =
     [CHR 0xD0, CHR 0x98, CHR 0xD0, CHR 0xBD, CHR 0xD1, CHR 0x84, CHR 0xD0, CHR 0xBE, CHR 0xD1,
      CHR 0x80, CHR 0xD0, CHR 0xBC, CHR 0xD0, CHR 0xB0, CHR 0xD1, CHR 0x86, CHR 0xD0, CHR 0xB8,
      CHR 0xD1, CHR 0x8F, CHR 0x20, CHR 0xD0, CHR 0xBE, CHR 0x20, CHR 0xD0, CHR 0xB8, CHR 0xD0,
      CHR 0xBD, CHR 0xD1, CHR 0x82, CHR 0xD0, CHR 0xB5, CHR 0xD1, CHR 0x80, CHR 0xD1, CHR 0x84,
      CHR 0xD0, CHR 0xB5, CHR 0xD0, CHR 0xB9, CHR 0xD1, CHR 0x81, CHR 0xD0, CHR 0xB5, CHR 0x20,
      CHR 0xD1, CHR 0x81, CHR 0xD0, CHR 0xB5, CHR 0xD1, CHR 0x82, CHR 0xD0, CHR 0xB8, CHR 0x3A,
      CHR 0x20]"

text \<open>Line 99: \<open>Type of network interface \<close>.\<close>

definition txt_if_type :: string where
  "txt_if_type =
     [CHR 0xD0, CHR 0xA2, CHR 0xD0, CHR 0xB8, CHR 0xD0, CHR 0xBF, CHR 0x20, CHR 0xD0, CHR 0xB8,
      CHR 0xD0, CHR 0xBD, CHR 0xD1, CHR 0x82, CHR 0xD0, CHR 0xB5, CHR 0xD1, CHR 0x80, CHR 0xD1,
      CHR 0x84, CHR 0xD0, CHR 0xB5, CHR 0xD0, CHR 0xB9, CHR 0xD1, CHR 0x81, CHR 0xD0, CHR 0xB0,
      CHR 0x20, CHR 0xD1, CHR 0x81, CHR 0xD0, CHR 0xB5, CHR 0xD1, CHR 0x82, CHR 0xD0, CHR 0xB8,
      CHR 0x20]"

text \<open>Line 100: \<open>IP of network interface \<close>.\<close>

definition txt_if_ip :: string where
  "txt_if_ip =
     [CHR 0x49, CHR 0x50, CHR 0x20, CHR 0xD0, CHR 0xB8, CHR 0xD0, CHR 0xBD, CHR 0xD1, CHR 0x82,
      CHR 0xD0, CHR 0xB5, CHR 0xD1, CHR 0x80, CHR 0xD1, CHR 0x84, CHR 0xD0, CHR 0xB5, CHR 0xD0,
      CHR 0xB9, CHR 0xD1, CHR 0x81, CHR 0xD0, CHR 0xB0, CHR 0x20, CHR 0xD1, CHR 0x81, CHR 0xD0,
      CHR 0xB5, CHR 0xD1, CHR 0x82, CHR 0xD0, CHR 0xB8, CHR 0x20]"

text \<open>Line 101: \<open>Netmask of network interface \<close>.\<close>

definition txt_if_netmask :: string where
  "txt_if_netmask =
     [CHR 0xD0, CHR 0xA1, CHR 0xD0, CHR 0xB5, CHR 0xD1, CHR 0x82, CHR 0xD0, CHR 0xB5, CHR 0xD0,
      CHR 0xB2, CHR 0xD0, CHR 0xB0, CHR 0xD1, CHR 0x8F, CHR 0x20, CHR 0xD0, CHR 0xBC, CHR 0xD0,
      CHR 0xB0, CHR 0xD1, CHR 0x81, CHR 0xD0, CHR 0xBA, CHR 0xD0, CHR 0xB0, CHR 0x20, CHR 0xD0,
      CHR 0xB8, CHR 0xD0, CHR 0xBD, CHR 0xD1, CHR 0x82, CHR 0xD0, CHR 0xB5, CHR 0xD1, CHR 0x80,
      CHR 0xD1, CHR 0x84, CHR 0xD0, CHR 0xB5, CHR 0xD0, CHR 0xB9, CHR 0xD1, CHR 0x81, CHR 0xD0,
      CHR 0xB0, CHR 0x20, CHR 0xD1, CHR 0x81, CHR 0xD0, CHR 0xB5, CHR 0xD1, CHR 0x82, CHR 0xD0,
      CHR 0xB8, CHR 0x20]"

text \<open>Line 102: \<open>Broadcast IP address of network interface \<close>.\<close>

definition txt_if_broadcast :: string where
  "txt_if_broadcast =
     [CHR 0xD0, CHR 0xA8, CHR 0xD0, CHR 0xB8, CHR 0xD1, CHR 0x80, CHR 0xD0, CHR 0xBE, CHR 0xD0,
      CHR 0xBA, CHR 0xD0, CHR 0xBE, CHR 0xD0, CHR 0xB2, CHR 0xD0, CHR 0xB5, CHR 0xD1, CHR 0x89,
      CHR 0xD0, CHR 0xB0, CHR 0xD1, CHR 0x82, CHR 0xD0, CHR 0xB5, CHR 0xD0, CHR 0xBB, CHR 0xD1,
      CHR 0x8C, CHR 0xD0, CHR 0xBD, CHR 0xD1, CHR 0x8B, CHR 0xD0, CHR 0xB9, CHR 0x20, CHR 0x49,
      CHR 0x50, CHR 0x2D, CHR 0xD0, CHR 0xB0, CHR 0xD0, CHR 0xB4, CHR 0xD1, CHR 0x80, CHR 0xD0,
      CHR 0xB5, CHR 0xD1, CHR 0x81, CHR 0x20, CHR 0xD0, CHR 0xB8, CHR 0xD0, CHR 0xBD, CHR 0xD1,
      CHR 0x82, CHR 0xD0, CHR 0xB5, CHR 0xD1, CHR 0x80, CHR 0xD1, CHR 0x84, CHR 0xD0, CHR 0xB5,
      CHR 0xD0, CHR 0xB9, CHR 0xD1, CHR 0x81, CHR 0xD0, CHR 0xB0, CHR 0x20, CHR 0xD1, CHR 0x81,
      CHR 0xD0, CHR 0xB5, CHR 0xD1, CHR 0x82, CHR 0xD0, CHR 0xB8, CHR 0x20]"

text \<open>Line 105: \<open>MAC address of network interface \<close>.\<close>

definition txt_if_mac :: string where
  "txt_if_mac =
     [CHR 0x4D, CHR 0x41, CHR 0x43, CHR 0x2D, CHR 0xD0, CHR 0xB0, CHR 0xD0, CHR 0xB4, CHR 0xD1,
      CHR 0x80, CHR 0xD0, CHR 0xB5, CHR 0xD1, CHR 0x81, CHR 0x20, CHR 0xD0, CHR 0xB8, CHR 0xD0,
      CHR 0xBD, CHR 0xD1, CHR 0x82, CHR 0xD0, CHR 0xB5, CHR 0xD1, CHR 0x80, CHR 0xD1, CHR 0x84,
      CHR 0xD0, CHR 0xB5, CHR 0xD0, CHR 0xB9, CHR 0xD1, CHR 0x81, CHR 0xD0, CHR 0xB0, CHR 0x20,
      CHR 0xD1, CHR 0x81, CHR 0xD0, CHR 0xB5, CHR 0xD1, CHR 0x82, CHR 0xD0, CHR 0xB8, CHR 0x20]"

text \<open>Line 113: \<open>Total number of bytes sent: \<close>.\<close>

definition txt_bytes_sent :: string where
  "txt_bytes_sent =
     [CHR 0xD0, CHR 0x9E, CHR 0xD0, CHR 0xB1, CHR 0xD1, CHR 0x89, CHR 0xD0, CHR 0xB5, CHR 0xD0,
      CHR 0xB5, CHR 0x20, CHR 0xD0, CHR 0xBA, CHR 0xD0, CHR 0xBE, CHR 0xD0, CHR 0xBB, CHR 0xD0,
      CHR 0xB8, CHR 0xD1, CHR 0x87, CHR 0xD0, CHR 0xB5, CHR 0xD1, CHR 0x81, CHR 0xD1, CHR 0x82,
      CHR 0xD0, CHR 0xB2, CHR 0xD0, CHR 0xBE, CHR 0x20, CHR 0xD0, CHR 0xBE, CHR 0xD1, CHR 0x82,
      CHR 0xD0, CHR 0xBF, CHR 0xD1, CHR 0x80, CHR 0xD0, CHR 0xB0, CHR 0xD0, CHR 0xB2, CHR 0xD0,
      CHR 0xBB, CHR 0xD0, CHR 0xB5, CHR 0xD0, CHR 0xBD, CHR 0xD0, CHR 0xBD, CHR 0xD1, CHR 0x8B,
      CHR 0xD1, CHR 0x85, CHR 0x20, CHR 0xD0, CHR 0xB1, CHR 0xD0, CHR 0xB0, CHR 0xD0, CHR 0xB9,
      CHR 0xD1, CHR 0x82, CHR 0xD0, CHR 0xBE, CHR 0xD0, CHR 0xB2, CHR 0x3A, CHR 0x20]"

text \<open>Line 114: \<open>Total number of bytes received: \<close>.\<close>

definition txt_bytes_recv :: string where
  "txt_bytes_recv =
     [CHR 0xD0, CHR 0x9E, CHR 0xD0, CHR 0xB1, CHR 0xD1, CHR 0x89, CHR 0xD0, CHR 0xB5, CHR 0xD0,
      CHR 0xB5, CHR 0x20, CHR 0xD0, CHR 0xBA, CHR 0xD0, CHR 0xBE, CHR 0xD0, CHR 0xBB, CHR 0xD0,
      CHR 0xB8, CHR 0xD1, CHR 0x87, CHR 0xD0, CHR 0xB5, CHR 0xD1, CHR 0x81, CHR 0xD1, CHR 0x82,
      CHR 0xD0, CHR 0xB2, CHR 0xD0, CHR 0xBE, CHR 0x20, CHR 0xD0, CHR 0xBF, CHR 0xD0, CHR 0xBE,
      CHR 0xD0, CHR 0xBB, CHR 0xD1, CHR 0x83, CHR 0xD1, CHR 0x87, CHR 0xD0, CHR 0xB5, CHR 0xD0,
      CHR 0xBD, CHR 0xD0, CHR 0xBD, CHR 0xD1, CHR 0x8B, CHR 0xD1, CHR 0x85, CHR 0x20, CHR 0xD0,
      CHR 0xB1, CHR 0xD0, CHR 0xB0, CHR 0xD0, CHR 0xB9, CHR 0xD1, CHR 0x82, CHR 0xD0, CHR 0xBE,
      CHR 0xD0, CHR 0xB2, CHR 0x3A, CHR 0x20]"

text \<open>Line 118: \<open>Information about the disks\<close>.\<close>

definition txt_disk_header :: string where
  "txt_disk_header =
     [CHR 0xD0, CHR 0x98, CHR 0xD0, CHR 0xBD, CHR 0xD1, CHR 0x84, CHR 0xD0, CHR 0xBE, CHR 0xD1,
      CHR 0x80, CHR 0xD0, CHR 0xBC, CHR 0xD0, CHR 0xB0, CHR 0xD1, CHR 0x86, CHR 0xD0, CHR 0xB8,
      CHR 0xD1, CHR 0x8F, CHR 0x20, CHR 0xD0, CHR 0xBE, CHR 0x20, CHR 0xD0, CHR 0xB4, CHR 0xD0,
      CHR 0xB8, CHR 0xD1, CHR 0x81, CHR 0xD0, CHR 0xBA, CHR 0xD0, CHR 0xB0, CHR 0xD1, CHR 0x85]"

text \<open>Line 121: \<open>Information about disk partition: \<close>.\<close>

definition txt_partition_header :: string where
  "txt_partition_header =
     [CHR 0xD0, CHR 0x98, CHR 0xD0, CHR 0xBD, CHR 0xD1, CHR 0x84, CHR 0xD0, CHR 0xBE, CHR 0xD1,
      CHR 0x80, CHR 0xD0, CHR 0xBC, CHR 0xD0, CHR 0xB0, CHR 0xD1, CHR 0x86, CHR 0xD0, CHR 0xB8,
      CHR 0xD1, CHR 0x8F, CHR 0x20, CHR 0xD0, CHR 0xBE, CHR 0x20, CHR 0xD1, CHR 0x80, CHR 0xD0,
      CHR 0xB0, CHR 0xD0, CHR 0xB7, CHR 0xD0, CHR 0xB4, CHR 0xD0, CHR 0xB5, CHR 0xD0, CHR 0xBB,
      CHR 0xD0, CHR 0xB5, CHR 0x20, CHR 0xD0, CHR 0xB4, CHR 0xD0, CHR 0xB8, CHR 0xD1, CHR 0x81,
      CHR 0xD0, CHR 0xBA, CHR 0xD0, CHR 0xB0, CHR 0x3A, CHR 0x20]"

text \<open>Line 123: \<open>File system of disk partition \<close>.\<close>

definition txt_fstype :: string where
  "txt_fstype =
     [CHR 0xD0, CHR 0xA4, CHR 0xD0, CHR 0xB0, CHR 0xD0, CHR 0xB9, CHR 0xD0, CHR 0xBB, CHR 0xD0,
      CHR 0xBE, CHR 0xD0, CHR 0xB2, CHR 0xD0, CHR 0xB0, CHR 0xD1, CHR 0x8F, CHR 0x20, CHR 0xD1,
      CHR 0x81, CHR 0xD0, CHR 0xB8, CHR 0xD1, CHR 0x81, CHR 0xD1, CHR 0x82, CHR 0xD0, CHR 0xB5,
      CHR 0xD0, CHR 0xBC, CHR 0xD0, CHR 0xB0, CHR 0x20, CHR 0xD1, CHR 0x80, CHR 0xD0, CHR 0xB0,
      CHR 0xD0, CHR 0xB7, CHR 0xD0, CHR 0xB4, CHR 0xD0, CHR 0xB5, CHR 0xD0, CHR 0xBB, CHR 0xD0,
      CHR 0xB0, CHR 0x20, CHR 0xD0, CHR 0xB4, CHR 0xD0, CHR 0xB8, CHR 0xD1, CHR 0x81, CHR 0xD0,
      CHR 0xBA, CHR 0xD0, CHR 0xB0, CHR 0x20]"

text \<open>Line 128: \<open>Total size of disk partition \<close>.\<close>

definition txt_disk_total :: string where
  "txt_disk_total =
     [CHR 0xD0, CHR 0x9E, CHR 0xD0, CHR 0xB1, CHR 0xD1, CHR 0x89, CHR 0xD0, CHR 0xB8, CHR 0xD0,
      CHR 0xB9, CHR 0x20, CHR 0xD0, CHR 0xBE, CHR 0xD0, CHR 0xB1, CHR 0xD1, CHR 0x8C, CHR 0xD0,
      CHR 0xB5, CHR 0xD0, CHR 0xBC, CHR 0x20, CHR 0xD1, CHR 0x80, CHR 0xD0, CHR 0xB0, CHR 0xD0,
      CHR 0xB7, CHR 0xD0, CHR 0xB4, CHR 0xD0, CHR 0xB5, CHR 0xD0, CHR 0xBB, CHR 0xD0, CHR 0xB0,
      CHR 0x20, CHR 0xD0, CHR 0xB4, CHR 0xD0, CHR 0xB8, CHR 0xD1, CHR 0x81, CHR 0xD0, CHR 0xBA,
      CHR 0xD0, CHR 0xB0, CHR 0x20]"

text \<open>Line 129: \<open>Used size of disk partition \<close>.\<close>

definition txt_disk_used :: string where
  "txt_disk_used =
     [CHR 0xD0, CHR 0x98, CHR 0xD1, CHR 0x81, CHR 0xD0, CHR 0xBF, CHR 0xD0, CHR 0xBE, CHR 0xD0,
      CHR 0xBB, CHR 0xD1, CHR 0x8C, CHR 0xD0, CHR 0xB7, CHR 0xD1, CHR 0x83, CHR 0xD0, CHR 0xB5,
      CHR 0xD0, CHR 0xBC, CHR 0xD1, CHR 0x8B, CHR 0xD0, CHR 0xB9, CHR 0x20, CHR 0xD0, CHR 0xBE,
      CHR 0xD0, CHR 0xB1, CHR 0xD1, CHR 0x8C, CHR 0xD0, CHR 0xB5, CHR 0xD0, CHR 0xBC, CHR 0x20,
      CHR 0xD1, CHR 0x80, CHR 0xD0, CHR 0xB0, CHR 0xD0, CHR 0xB7, CHR 0xD0, CHR 0xB4, CHR 0xD0,
      CHR 0xB5, CHR 0xD0, CHR 0xBB, CHR 0xD0, CHR 0xB0, CHR 0x20, CHR 0xD0, CHR 0xB4, CHR 0xD0,
      CHR 0xB8, CHR 0xD1, CHR 0x81, CHR 0xD0, CHR 0xBA, CHR 0xD0, CHR 0xB0, CHR 0x20]"

text \<open>Line 130: \<open>Free size of disk partition \<close>.\<close>

definition txt_disk_free :: string where
  "txt_disk_free =
     [CHR 0xD0, CHR 0xA1, CHR 0xD0, CHR 0xB2, CHR 0xD0, CHR 0xBE, CHR 0xD0, CHR 0xB1, CHR 0xD0,
      CHR 0xBE, CHR 0xD0, CHR 0xB4, CHR 0xD0, CHR 0xBD, CHR 0xD1, CHR 0x8B, CHR 0xD0, CHR 0xB9,
      CHR 0x20, CHR 0xD0, CHR 0xBE, CHR 0xD0, CHR 0xB1, CHR 0xD1, CHR 0x8C, CHR 0xD0, CHR 0xB5,
      CHR 0xD0, CHR 0xBC, CHR 0x20, CHR 0xD1, CHR 0x80, CHR 0xD0, CHR 0xB0, CHR 0xD0, CHR 0xB7,
      CHR 0xD0, CHR 0xB4, CHR 0xD0, CHR 0xB5, CHR 0xD0, CHR 0xBB, CHR 0xD0, CHR 0xB0, CHR 0x20,
      CHR 0xD0, CHR 0xB4, CHR 0xD0, CHR 0xB8, CHR 0xD1, CHR 0x81, CHR 0xD0, CHR 0xBA, CHR 0xD0,
      CHR 0xB0, CHR 0x20]"

text \<open>Line 131: \<open>Percentage of the size of disk partition \<close>.\<close>

definition txt_disk_percent :: string where
  "txt_disk_percent =
     [CHR 0xD0, CHR 0x9F, CHR 0xD1, CHR 0x80, CHR 0xD0, CHR 0xBE, CHR 0xD1, CHR 0x86, CHR 0xD0,
      CHR 0xB5, CHR 0xD0, CHR 0xBD, CHR 0xD1, CHR 0x82, CHR 0x20, CHR 0xD0, CHR 0xBE, CHR 0xD0,
      CHR 0xB1, CHR 0xD1, CHR 0x8A, CHR 0xD0, CHR 0xB5, CHR 0xD0, CHR 0xBC, CHR 0xD0, CHR 0xB0,
      CHR 0x20, CHR 0xD1, CHR 0x80, CHR 0xD0, CHR 0xB0, CHR 0xD0, CHR 0xB7, CHR 0xD0, CHR 0xB4,
      CHR 0xD0, CHR 0xB5, CHR 0xD0, CHR 0xBB, CHR 0xD0, CHR 0xB0, CHR 0x20, CHR 0xD0, CHR 0xB4,
      CHR 0xD0, CHR 0xB8, CHR 0xD1, CHR 0x81, CHR 0xD0, CHR 0xBA, CHR 0xD0, CHR 0xB0, CHR 0x20]"

text \<open>Line 135: \<open>Information about RAM\<close>.\<close>

definition txt_ram_header :: string where
  "txt_ram_header =
     [CHR 0xD0, CHR 0x98, CHR 0xD0, CHR 0xBD, CHR 0xD1, CHR 0x84, CHR 0xD0, CHR 0xBE, CHR 0xD1,
      CHR 0x80, CHR 0xD0, CHR 0xBC, CHR 0xD0, CHR 0xB0, CHR 0xD1, CHR 0x86, CHR 0xD0, CHR 0xB8,
      CHR 0xD1, CHR 0x8F, CHR 0x20, CHR 0xD0, CHR 0xBE, CHR 0xD0, CHR 0xB1, CHR 0x20, CHR 0xD0,
      CHR 0x9E, CHR 0xD0, CHR 0x97, CHR 0xD0, CHR 0xA3]"

text \<open>Line 137: \<open>RAM size: \<close>.\<close>

definition txt_ram_total :: string where
  "txt_ram_total =
     [CHR 0xD0, CHR 0x9E, CHR 0xD0, CHR 0xB1, CHR 0xD1, CHR 0x8A, CHR 0xD0, CHR 0xB5, CHR 0xD0,
      CHR 0xBC, CHR 0x20, CHR 0xD0, CHR 0x9E, CHR 0xD0, CHR 0x97, CHR 0xD0, CHR 0xA3, CHR 0x3A,
      CHR 0x20]"

text \<open>Line 138: \<open>RAM available: \<close>.\<close>

definition txt_ram_available :: string where
  "txt_ram_available =
     [CHR 0xD0, CHR 0x94, CHR 0xD0, CHR 0xBE, CHR 0xD1, CHR 0x81, CHR 0xD1, CHR 0x82, CHR 0xD1,
      CHR 0x83, CHR 0xD0, CHR 0xBF, CHR 0xD0, CHR 0xBD, CHR 0xD0, CHR 0xBE, CHR 0x20, CHR 0xD0,
      CHR 0x9E, CHR 0xD0, CHR 0x97, CHR 0xD0, CHR 0xA3, CHR 0x3A, CHR 0x20]"

text \<open>Line 139: \<open>RAM used: \<close>.\<close>

definition txt_ram_used :: string where
  "txt_ram_used =
     [CHR 0xD0, CHR 0x98, CHR 0xD1, CHR 0x81, CHR 0xD0, CHR 0xBF, CHR 0xD0, CHR 0xBE, CHR 0xD0,
      CHR 0xBB, CHR 0xD1, CHR 0x8C, CHR 0xD0, CHR 0xB7, CHR 0xD1, CHR 0x83, CHR 0xD0, CHR 0xB5,
      CHR 0xD1, CHR 0x82, CHR 0xD1, CHR 0x81, CHR 0xD1, CHR 0x8F, CHR 0x20, CHR 0xD0, CHR 0x9E,
      CHR 0xD0, CHR 0x97, CHR 0xD0, CHR 0xA3, CHR 0x3A, CHR 0x20]"

text \<open>Line 140: \<open>RAM percentage: \<close>.\<close>

definition txt_ram_percent :: string where
  "txt_ram_percent =
     [CHR 0xD0, CHR 0x9F, CHR 0xD1, CHR 0x80, CHR 0xD0, CHR 0xBE, CHR 0xD1, CHR 0x86, CHR 0xD0,
      CHR 0xB5, CHR 0xD0, CHR 0xBD, CHR 0xD1, CHR 0x82, CHR 0x20, CHR 0xD0, CHR 0x9E, CHR 0xD0,
      CHR 0x97, CHR 0xD0, CHR 0xA3, CHR 0x3A, CHR 0x20]"

text \<open>Line 142: \<open>Information about swap memory\<close>.\<close>

definition txt_swap_header :: string where
  "txt_swap_header =
     [CHR 0xD0, CHR 0x98, CHR 0xD0, CHR 0xBD, CHR 0xD1, CHR 0x84, CHR 0xD0, CHR 0xBE, CHR 0xD1,
      CHR 0x80, CHR 0xD0, CHR 0xBC, CHR 0xD0, CHR 0xB0, CHR 0xD1, CHR 0x86, CHR 0xD0, CHR 0xB8,
      CHR 0xD1, CHR 0x8F, CHR 0x20, CHR 0xD0, CHR 0xBE, CHR 0x20, CHR 0xD0, CHR 0xBF, CHR 0xD0,
      CHR 0xB0, CHR 0xD0, CHR 0xBC, CHR 0xD1, CHR 0x8F, CHR 0xD1, CHR 0x82, CHR 0xD0, CHR 0xB8,
      CHR 0x20, CHR 0xD0, CHR 0xBF, CHR 0xD0, CHR 0xBE, CHR 0xD0, CHR 0xB4, CHR 0xD0, CHR 0xBA,
      CHR 0xD0, CHR 0xB0, CHR 0xD1, CHR 0x87, CHR 0xD0, CHR 0xBA, CHR 0xD0, CHR 0xB8]"

text \<open>Line 144: \<open>Swap memory size: \<close>.\<close>

definition txt_swap_total :: string where
  "txt_swap_total =
     [CHR 0xD0, CHR 0x9E, CHR 0xD0, CHR 0xB1, CHR 0xD1, CHR 0x8A, CHR 0xD0, CHR 0xB5, CHR 0xD0,
      CHR 0xBC, CHR 0x20, CHR 0xD0, CHR 0xBF, CHR 0xD0, CHR 0xB0, CHR 0xD0, CHR 0xBC, CHR 0xD1,
      CHR 0x8F, CHR 0xD1, CHR 0x82, CHR 0xD0, CHR 0xB8, CHR 0x20, CHR 0xD0, CHR 0xBF, CHR 0xD0,
      CHR 0xBE, CHR 0xD0, CHR 0xB4, CHR 0xD0, CHR 0xBA, CHR 0xD0, CHR 0xB0, CHR 0xD1, CHR 0x87,
      CHR 0xD0, CHR 0xBA, CHR 0xD0, CHR 0xB8, CHR 0x3A, CHR 0x20]"

text \<open>Line 145: \<open>Swap memory free: \<close>.\<close>

definition txt_swap_free :: string where
  "txt_swap_free =
     [CHR 0xD0, CHR 0xA1, CHR 0xD0, CHR 0xB2, CHR 0xD0, CHR 0xBE, CHR 0xD0, CHR 0xB1, CHR 0xD0,
      CHR 0xBE, CHR 0xD0, CHR 0xB4, CHR 0xD0, CHR 0xBD, CHR 0xD0, CHR 0xBE, CHR 0x20, CHR 0xD0,
      CHR 0xBF, CHR 0xD0, CHR 0xB0, CHR 0xD0, CHR 0xBC, CHR 0xD1, CHR 0x8F, CHR 0xD1, CHR 0x82,
      CHR 0xD0, CHR 0xB8, CHR 0x20, CHR 0xD0, CHR 0xBF, CHR 0xD0, CHR 0xBE, CHR 0xD0, CHR 0xB4,
      CHR 0xD0, CHR 0xBA, CHR 0xD0, CHR 0xB0, CHR 0xD1, CHR 0x87, CHR 0xD0, CHR 0xBA, CHR 0xD0,
      CHR 0xB8, CHR 0x3A, CHR 0x20]"

text \<open>Line 146: \<open>Swap memory used: \<close>.\<close>

definition txt_swap_used :: string where
  "txt_swap_used =
     [CHR 0xD0, CHR 0x98, CHR 0xD1, CHR 0x81, CHR 0xD0, CHR 0xBF, CHR 0xD0, CHR 0xBE, CHR 0xD0,
      CHR 0xBB, CHR 0xD1, CHR 0x8C, CHR 0xD0, CHR 0xB7, CHR 0xD1, CHR 0x83, CHR 0xD0, CHR 0xB5,
      CHR 0xD1, CHR 0x82, CHR 0xD1, CHR 0x81, CHR 0xD1, CHR 0x8F, CHR 0x20, CHR 0xD0, CHR 0xBF,
      CHR 0xD0, CHR 0xB0, CHR 0xD0, CHR 0xBC, CHR 0xD1, CHR 0x8F, CHR 0xD1, CHR 0x82, CHR 0xD0,
      CHR 0xB8, CHR 0x20, CHR 0xD0, CHR 0xBF, CHR 0xD0, CHR 0xBE, CHR 0xD0, CHR 0xB4, CHR 0xD0,
      CHR 0xBA, CHR 0xD0, CHR 0xB0, CHR 0xD1, CHR 0x87, CHR 0xD0, CHR 0xBA, CHR 0xD0, CHR 0xB8,
      CHR 0x3A, CHR 0x20]"

text \<open>Line 147: \<open>Swap memory percentage: \<close>.\<close>

definition txt_swap_percent :: string where
  "txt_swap_percent =
     [CHR 0xD0, CHR 0x9F, CHR 0xD1, CHR 0x80, CHR 0xD0, CHR 0xBE, CHR 0xD1, CHR 0x86, CHR 0xD0,
      CHR 0xB5, CHR 0xD0, CHR 0xBD, CHR 0xD1, CHR 0x82, CHR 0x20, CHR 0xD0, CHR 0xBF, CHR 0xD0,
      CHR 0xB0, CHR 0xD0, CHR 0xBC, CHR 0xD1, CHR 0x8F, CHR 0xD1, CHR 0x82, CHR 0xD0, CHR 0xB8,
      CHR 0x20, CHR 0xD0, CHR 0xBF, CHR 0xD0, CHR 0xBE, CHR 0xD0, CHR 0xB4, CHR 0xD0, CHR 0xBA,
      CHR 0xD0, CHR 0xB0, CHR 0xD1, CHR 0x87, CHR 0xD0, CHR 0xBA, CHR 0xD0, CHR 0xB8, CHR 0x3A,
      CHR 0x20]"
section \<open>The sink: console and log file\<close>

text \<open>
  The state of the root logger of the \<open>logging\<close> module: not configured yet; configured
  by default (a handler on the error stream, level \<open>WARNING\<close>, so that \<open>INFO\<close> records
  are dropped); or configured by \<open>start_logger\<close> (a handler on the log file, level
  \<open>INFO\<close>).
\<close>

datatype root_logger = Unconfigured | Stderr_Warning | File_Info

text \<open>
  What a run writes: \<open>console\<close> holds the text of every \<open>print\<close> call, \<open>logfile\<close> the
  message of every record written to \<^verbatim>\<open>data/computer_resources.log\<close>, both oldest
  first. The time stamp and the level that the log format puts before each message are not
  part of the model.
\<close>

record sink =
  console :: "string list"
  logfile :: "string list"
  logger :: root_logger

type_synonym prog = "sink \<Rightarrow> exn option \<times> sink"

text \<open>
  A statement that cannot raise, the empty statement, and a list of statements run in
  order: the first exception ends the run and keeps what was written before it.
\<close>

definition stmt :: "(sink \<Rightarrow> sink) \<Rightarrow> prog" where
  "stmt f s = (None, f s)"

definition skip :: prog where
  "skip s = (None, s)"

definition raise :: "exn \<Rightarrow> prog" where
  "raise e s = (Some e, s)"

fun seq :: "prog list \<Rightarrow> prog" where
  "seq [] s = (None, s)"
| "seq (p # ps) s = (case p s of (Some e, s') \<Rightarrow> (Some e, s') | (None, s') \<Rightarrow> seq ps s')"

text \<open>\<open>print(text)\<close>.\<close>

definition print :: "string \<Rightarrow> sink \<Rightarrow> sink" where
  "print text s = s\<lparr>console := console s @ [text]\<rparr>"

text \<open>
  \<^verbatim>\<open>print('=' * n, text, '=' * n)\<close>: the three arguments are written on one line,
  separated by single spaces.
\<close>

definition banner :: "nat \<Rightarrow> string \<Rightarrow> string" where
  "banner n text = replicate n CHR ''='' @ '' '' @ text @ '' '' @ replicate n CHR ''=''"

text \<open>
  \<open>logging.info(text)\<close>: a root logger without a handler is first given the default
  configuration, under which the record is dropped.
\<close>

definition logging_info :: "string \<Rightarrow> sink \<Rightarrow> sink" where
  "logging_info text s =
     (case logger s of
        Unconfigured \<Rightarrow> s\<lparr>logger := Stderr_Warning\<rparr>
      | Stderr_Warning \<Rightarrow> s
      | File_Info \<Rightarrow> s\<lparr>logfile := logfile s @ [text]\<rparr>)"

definition print_log :: "string \<Rightarrow> sink \<Rightarrow> sink" where
  "print_log text s = print text (logging_info text s)"

text \<open>
  \<^verbatim>\<open>print_log(f'...')\<close> where evaluating the f-string may raise: the exception
  leaves before anything is written.
\<close>

definition print_log_f :: "exn + string \<Rightarrow> prog" where
  "print_log_f r s = (case r of Inl e \<Rightarrow> (Some e, s) | Inr text \<Rightarrow> (None, print_log text s))"

text \<open>An f-string made of a literal text and a value whose evaluation may raise.\<close>

definition fstr :: "string \<Rightarrow> exn + string \<Rightarrow> exn + string" where
  "fstr label r = (case r of Inl e \<Rightarrow> Inl e | Inr v \<Rightarrow> Inr (label @ v))"

section \<open>What the operating system reports\<close>

text \<open>
  The named tuples of \<open>platform\<close> and \<open>psutil\<close>, with the fields the monitor reads
  (\<open>sswap\<close> with all six of its fields). Field names carry the tuple's name where two
  tuples share a field name or a name is taken.
\<close>

record uname_result =
  system :: string
  node :: string
  release :: string
  version :: string
  machine :: string
  processor :: string

record scpufreq =
  freq_current :: pyfloat
  freq_min :: pyfloat
  freq_max :: pyfloat

record sswap =
  sswap_total :: int
  sswap_used :: int
  sswap_free :: int
  sswap_percent :: pyfloat
  sswap_sin :: int
  sswap_sout :: int

record svmem =
  svmem_total :: int
  svmem_available :: int
  svmem_percent :: pyfloat
  svmem_used :: int

record sdiskpart =
  device :: string
  mountpoint :: string
  fstype :: string

record sdiskusage =
  sdiskusage_total :: int
  sdiskusage_used :: int
  sdiskusage_free :: int
  sdiskusage_percent :: pyfloat

text \<open>
  \<open>family\<close> holds \<open>str(address.family)\<close>, the only way the monitor reads that field;
  \<open>netmask\<close> and \<open>broadcast\<close> may be \<open>None\<close>.
\<close>

record snicaddr =
  family :: string
  address :: string
  netmask :: "string option"
  broadcast :: "string option"

text \<open>
  The family itself is a member of the enumeration \<open>socket.AddressFamily\<close>, an
  \<open>IntEnum\<close>; the members that \<open>psutil\<close> reports on Linux are given with their names
  and their values there. What \<open>str\<close> makes of a member depends on the interpreter: up
  to Python 3.10 it is the name of the class, a dot and the name of the member; since
  Python 3.11 it is the decimal text of the value.
\<close>

datatype AddressFamily = AF_INET | AF_INET6 | AF_PACKET

fun family_name :: "AddressFamily \<Rightarrow> string" where
  "family_name AF_INET = ''AF_INET''"
| "family_name AF_INET6 = ''AF_INET6''"
| "family_name AF_PACKET = ''AF_PACKET''"

fun family_value :: "AddressFamily \<Rightarrow> int" where
  "family_value AF_INET = 2"
| "family_value AF_INET6 = 10"
| "family_value AF_PACKET = 17"

definition str_family_py310 :: "AddressFamily \<Rightarrow> string" where
  "str_family_py310 fam = ''AddressFamily.'' @ family_name fam"

definition str_family_py311 :: "AddressFamily \<Rightarrow> string" where
  "str_family_py311 fam = str_int (family_value fam)"

text \<open>
  An address as \<open>psutil\<close> reports it, seen through the \<open>str\<close> of the interpreter that
  runs the monitor.
\<close>

definition nic_address ::
  "(AddressFamily \<Rightarrow> string) \<Rightarrow> AddressFamily \<Rightarrow> string \<Rightarrow> string option \<Rightarrow> string option
     \<Rightarrow> snicaddr" where
  "nic_address str_family fam addr nm bc =
     \<lparr>family = str_family fam, address = addr, netmask = nm, broadcast = bc\<rparr>"

record snetio =
  bytes_sent :: int
  bytes_recv :: int

text \<open>
  The operating system at one moment, as the queries of \<open>platform\<close> and \<open>psutil\<close> would
  report it: \<open>os_cpu_freq\<close> is \<open>None\<close> where the frequency cannot be determined,
  \<open>os_cpu_count_physical\<close> and \<open>os_cpu_count_logical\<close> are \<open>None\<close> where the count
  is undetermined, \<open>os_disk_usage\<close> takes a mount point and may raise,
  \<open>os_cpu_percent_percpu\<close> is the reading of \<^verbatim>\<open>cpu_percent(percpu=True, interval=1)\<close>
  and \<open>os_cpu_percent\<close> that of \<^verbatim>\<open>cpu_percent()\<close>. \<open>os_log_file_writable\<close> tells
  whether the log file can be opened for writing.
\<close>

record os_state =
  os_uname :: uname_result
  os_cpu_freq :: "scpufreq option"
  os_swap_memory :: "sswap option"
  os_virtual_memory :: svmem
  os_disk_partitions :: "sdiskpart list"
  os_net_if_addrs :: "(string \<times> snicaddr list) list"
  os_net_io_counters :: snetio
  os_cpu_count_physical :: "int option"
  os_cpu_count_logical :: "int option"
  os_cpu_percent_percpu :: "pyfloat list"
  os_cpu_percent :: pyfloat
  os_disk_usage :: "string \<Rightarrow> exn + sdiskusage"
  os_log_file_writable :: bool


section \<open>The monitor\<close>

text \<open>
  The fields that \<open>__init__\<close> sets. \<open>if_addrs\<close> is a dict from interface names to
  address lists; it is read in insertion order only, so it is kept as an association list
  (with distinct names).
\<close>

record ResourceMonitor =
  uname :: uname_result
  cpufreq :: "scpufreq option"
  swap :: "sswap option"
  svmem :: svmem
  partitions :: "sdiskpart list"
  if_addrs :: "(string \<times> snicaddr list) list"
  net_io :: snetio

definition ResourceMonitor_init :: "os_state \<Rightarrow> ResourceMonitor" where
  "ResourceMonitor_init os =
     \<lparr>uname = os_uname os,
      cpufreq = os_cpu_freq os,
      swap = os_swap_memory os,
      svmem = os_virtual_memory os,
      partitions = os_disk_partitions os,
      if_addrs = os_net_if_addrs os,
      net_io = os_net_io_counters os\<rparr>"

subsection \<open>\<open>system_info\<close>\<close>

definition system_info :: "ResourceMonitor \<Rightarrow> prog" where
  "system_info self = seq
     [stmt (print (banner 10 txt_system_header)),
      stmt (logging_info txt_system_header),
      stmt (print_log (txt_system @ system (uname self))),
      stmt (print_log (txt_node @ node (uname self))),
      stmt (print_log (txt_release @ release (uname self))),
      stmt (print_log (txt_version @ version (uname self))),
      stmt (print_log (txt_machine @ machine (uname self))),
      stmt (print_log (txt_processor @ processor (uname self)))]"

subsection \<open>\<open>proc_info\<close>\<close>

text \<open>
  \<^verbatim>\<open>{self.cpufreq.max:.2f}\<close> and its siblings: the attribute access raises
  \<open>AttributeError\<close> when \<open>self.cpufreq\<close> is \<open>None\<close>.
\<close>

definition cpufreq_field :: "ResourceMonitor \<Rightarrow> (scpufreq \<Rightarrow> pyfloat) \<Rightarrow> exn + string" where
  "cpufreq_field self field =
     (case cpufreq self of
        None \<Rightarrow> Inl AttributeError
      | Some f \<Rightarrow> Inr (format_2f (field f) @ txt_mhz))"

text \<open>
  The parameter \<open>str_float\<close> is \<open>str\<close> on a float, the shortest decimal text that reads
  back as the same double; it belongs to the interpreter and is not modelled further.
  The core counts and the load are asked of the operating system when the method runs.
\<close>

definition core_line :: "(pyfloat \<Rightarrow> string) \<Rightarrow> nat \<times> pyfloat \<Rightarrow> prog" where
  "core_line str_float ip =
     (case ip of (i, percentage) \<Rightarrow>
        stmt (print_log (txt_core_load @ str_int (int i) @ '': '' @ str_float percentage @ ''%'')))"

definition proc_info :: "(pyfloat \<Rightarrow> string) \<Rightarrow> ResourceMonitor \<Rightarrow> os_state \<Rightarrow> prog" where
  "proc_info str_float self os = seq
     [stmt (print (banner 10 txt_proc_header)),
      stmt (logging_info txt_proc_header),
      stmt (print_log (txt_physical_cores @ str_int_opt (os_cpu_count_physical os))),
      stmt (print_log (txt_logical_cores @ str_int_opt (os_cpu_count_logical os))),
      print_log_f (fstr txt_freq_max (cpufreq_field self freq_max)),
      print_log_f (fstr txt_freq_min (cpufreq_field self freq_min)),
      print_log_f (fstr txt_freq_current (cpufreq_field self freq_current)),
      seq (map (core_line str_float) (enumerate 0 (os_cpu_percent_percpu os))),
      stmt (print_log (txt_total_load @ str_float (os_cpu_percent os) @ ''%''))]"

subsection \<open>\<open>network_info\<close>\<close>

text \<open>The body of the inner loop: one address of one interface.\<close>

definition address_block :: "string \<Rightarrow> snicaddr \<Rightarrow> prog" where
  "address_block inteface_name address' = seq
     [stmt (print (banner 5 (txt_interface_header @ inteface_name))),
      stmt (logging_info (txt_interface_header @ inteface_name)),
      (if family address' = ''AddressFamily.AF_INET'' then seq
         [stmt (print_log (txt_if_type @ inteface_name @ '': '' @ family address')),
          stmt (print_log (txt_if_ip @ inteface_name @ '': '' @ address address')),
          stmt (print_log (txt_if_netmask @ inteface_name @ '': '' @ str_opt (netmask address'))),
          stmt (print_log (txt_if_broadcast @ inteface_name @ '': '' @ str_opt (broadcast address')))]
       else if family address' = ''AddressFamily.AF_PACKET'' then seq
         [stmt (print_log (txt_if_type @ inteface_name @ '': '' @ family address')),
          stmt (print_log (txt_if_mac @ inteface_name @ '': '' @ address address')),
          stmt (print_log (txt_if_netmask @ inteface_name @ '': '' @ str_opt (netmask address'))),
          stmt (print_log (txt_if_broadcast @ inteface_name @ '': '' @ str_opt (broadcast address')))]
       else seq
         [stmt (print_log (txt_if_type @ inteface_name @ '': '' @ family address')),
          stmt (print_log (txt_if_mac @ inteface_name @ '': '' @ address address')),
          stmt (print_log (txt_if_netmask @ inteface_name @ '': '' @ str_opt (netmask address'))),
          stmt (print_log (txt_if_broadcast @ inteface_name @ '': '' @ str_opt (broadcast address')))])]"

text \<open>The body of the outer loop: all addresses of one interface.\<close>

definition interface_block :: "string \<times> snicaddr list \<Rightarrow> prog" where
  "interface_block item =
     (case item of (inteface_name, interface_addresses) \<Rightarrow>
        seq (map (address_block inteface_name) interface_addresses))"

definition network_info :: "ResourceMonitor \<Rightarrow> prog" where
  "network_info self = seq
     [stmt (print (banner 10 txt_network_header)),
      stmt (logging_info txt_network_header),
      seq (map interface_block (if_addrs self)),
      print_log_f (fstr txt_bytes_sent (str_get_size (PyInt (bytes_sent (net_io self))))),
      print_log_f (fstr txt_bytes_recv (str_get_size (PyInt (bytes_recv (net_io self)))))]"

subsection \<open>\<open>disk_info\<close>\<close>

text \<open>
  The usage lines of one partition, after a successful usage query.
\<close>

definition usage_lines :: "sdiskpart \<Rightarrow> sdiskusage \<Rightarrow> prog" where
  "usage_lines partition' partition_usage = seq
     [print_log_f (fstr (txt_disk_total @ device partition' @ '': '')
        (str_get_size (PyInt (sdiskusage_total partition_usage)))),
      print_log_f (fstr (txt_disk_used @ device partition' @ '': '')
        (str_get_size (PyInt (sdiskusage_used partition_usage)))),
      print_log_f (fstr (txt_disk_free @ device partition' @ '': '')
        (str_get_size (PyInt (sdiskusage_free partition_usage)))),
      print_log_f (fstr (txt_disk_percent @ device partition' @ '': '')
        (str_get_size (PyFloat (sdiskusage_percent partition_usage))))]"

text \<open>
  The body of the loop over the partitions. The usage is asked of the operating system when
  the method runs; \<open>PermissionError\<close> is caught and the loop continues with the next
  partition, any other exception leaves the method.
\<close>

definition partition_block :: "os_state \<Rightarrow> sdiskpart \<Rightarrow> prog" where
  "partition_block os partition' = seq
     [stmt (print (banner 5 (txt_partition_header @ device partition'))),
      stmt (logging_info (txt_partition_header @ device partition')),
      stmt (print_log (txt_fstype @ device partition' @ '': '' @ fstype partition')),
      (case os_disk_usage os (mountpoint partition') of
         Inl e \<Rightarrow> (if e = PermissionError then skip else raise e)
       | Inr partition_usage \<Rightarrow> usage_lines partition' partition_usage)]"

definition disk_info :: "ResourceMonitor \<Rightarrow> os_state \<Rightarrow> prog" where
  "disk_info self os = seq
     [stmt (print (banner 10 txt_disk_header)),
      stmt (logging_info txt_disk_header),
      seq (map (partition_block os) (partitions self))]"

subsection \<open>\<open>ram_info\<close>\<close>

text \<open>
  The truth value of \<open>self.swap\<close> in \<^verbatim>\<open>if self.swap:\<close>. \<open>None\<close> is false. An
  \<open>sswap\<close> is a named tuple, and a tuple is true when it is not empty, whatever its
  fields hold; \<open>sswap\<close> has six fields (\<open>total\<close>, \<open>used\<close>, \<open>free\<close>, \<open>percent\<close>,
  \<open>sin\<close>, \<open>sout\<close>), so its length is 6.
\<close>

definition sswap_len :: "sswap \<Rightarrow> nat" where
  "sswap_len t = 6"

definition truthy :: "sswap option \<Rightarrow> bool" where
  "truthy v = (case v of None \<Rightarrow> False | Some t \<Rightarrow> sswap_len t \<noteq> 0)"

definition swap_lines :: "(pyfloat \<Rightarrow> string) \<Rightarrow> sswap \<Rightarrow> prog" where
  "swap_lines str_float sw = seq
     [stmt (print (banner 5 txt_swap_header)),
      stmt (logging_info txt_swap_header),
      print_log_f (fstr txt_swap_total (str_get_size (PyInt (sswap_total sw)))),
      print_log_f (fstr txt_swap_free (str_get_size (PyInt (sswap_free sw)))),
      print_log_f (fstr txt_swap_used (str_get_size (PyInt (sswap_used sw)))),
      stmt (print_log (txt_swap_percent @ str_float (sswap_percent sw) @ ''%''))]"

definition ram_info :: "(pyfloat \<Rightarrow> string) \<Rightarrow> ResourceMonitor \<Rightarrow> prog" where
  "ram_info str_float self = seq
     [stmt (print (banner 10 txt_ram_header)),
      stmt (logging_info txt_ram_header),
      print_log_f (fstr txt_ram_total (str_get_size (PyInt (svmem_total (svmem self))))),
      print_log_f (fstr txt_ram_available (str_get_size (PyInt (svmem_available (svmem self))))),
      print_log_f (fstr txt_ram_used (str_get_size (PyInt (svmem_used (svmem self))))),
      print_log_f (fstr txt_ram_percent (str_get_size (PyFloat (svmem_percent (svmem self))))),
      (if truthy (swap self)
       then (case swap self of None \<Rightarrow> raise AttributeError | Some sw \<Rightarrow> swap_lines str_float sw)
       else skip)]"

subsection \<open>\<open>call_all\<close> and \<open>start_pc_monitor\<close>\<close>

definition call_all :: "(pyfloat \<Rightarrow> string) \<Rightarrow> ResourceMonitor \<Rightarrow> os_state \<Rightarrow> prog" where
  "call_all str_float self os = seq
     [system_info self,
      proc_info str_float self os,
      ram_info str_float self,
      disk_info self os,
      network_info self]"




section \<open>Example hosts\<close>

text \<open>
  A stand-in for \<open>str\<close> on floats that is right on \<open>0.0\<close>, the only float the examples
  below apply it to.
\<close>

definition str_float_zero :: "pyfloat \<Rightarrow> string" where
  "str_float_zero x = ''0.0''"

definition zero_float :: pyfloat where
  "zero_float = Finite False 0 0"

definition empty_sink :: sink where
  "empty_sink = \<lparr>console = [], logfile = [], logger = Unconfigured\<rparr>"

text \<open>A sink on which \<open>start_logger\<close> has run.\<close>

definition started_sink :: sink where
  "started_sink = \<lparr>console = [], logfile = [], logger = File_Info\<rparr>"

text \<open>
  A host without swap (\<open>psutil\<close> reports the tuple of zeros), with two partitions, the
  first of which refuses the usage query, and one interface with an IPv4 and a link-layer
  address, their families in the text that Python up to 3.10 gives them.
\<close>

definition example_usage :: "string \<Rightarrow> exn + sdiskusage" where
  "example_usage mp =
     (if mp = ''/'' then Inl PermissionError
      else Inr \<lparr>sdiskusage_total = 1024, sdiskusage_used = 0, sdiskusage_free = 1024,
                sdiskusage_percent = zero_float\<rparr>)"

definition example_os :: os_state where
  "example_os =
     \<lparr>os_uname = \<lparr>system = ''Linux'', node = ''host'', release = ''6.1'', version = ''#1'',
                   machine = ''x86_64'', processor = ''''\<rparr>,
      os_cpu_freq = Some \<lparr>freq_current = zero_float, freq_min = zero_float, freq_max = zero_float\<rparr>,
      os_swap_memory = Some \<lparr>sswap_total = 0, sswap_used = 0, sswap_free = 0,
                             sswap_percent = zero_float, sswap_sin = 0, sswap_sout = 0\<rparr>,
      os_virtual_memory = \<lparr>svmem_total = 1024, svmem_available = 1024,
                           svmem_percent = zero_float, svmem_used = 0\<rparr>,
      os_disk_partitions =
        [\<lparr>device = ''/dev/sda1'', mountpoint = ''/'', fstype = ''ext4''\<rparr>,
         \<lparr>device = ''/dev/sdb1'', mountpoint = ''/mnt'', fstype = ''ext4''\<rparr>],
      os_net_if_addrs =
        [(''eth0'',
          [\<lparr>family = ''AddressFamily.AF_INET'', address = ''192.168.1.10'',
             netmask = Some ''255.255.255.0'', broadcast = Some ''192.168.1.255''\<rparr>,
           \<lparr>family = ''AddressFamily.AF_PACKET'', address = ''00:00:00:00:00:01'',
             netmask = None, broadcast = Some ''ff:ff:ff:ff:ff:ff''\<rparr>])],
      os_net_io_counters = \<lparr>bytes_sent = 0, bytes_recv = 1024\<rparr>,
      os_cpu_count_physical = Some 2,
      os_cpu_count_logical = Some 4,
      os_cpu_percent_percpu = [zero_float, zero_float],
      os_cpu_percent = zero_float,
      os_disk_usage = example_usage,
      os_log_file_writable = True\<rparr>"



text \<open>The same host, had it no frequency sensor.\<close>

definition sensorless_os :: os_state where
  "sensorless_os = example_os\<lparr>os_cpu_freq := None\<rparr>"

text \<open>
  The two addresses of the example interface as the family is rendered since Python 3.11,
  and the IPv4 address as it was rendered before.
\<close>

definition inet_address_py311 :: snicaddr where
  "inet_address_py311 =
     nic_address str_family_py311 AF_INET ''192.168.1.10''
       (Some ''255.255.255.0'') (Some ''192.168.1.255'')"

definition packet_address_py311 :: snicaddr where
  "packet_address_py311 =
     nic_address str_family_py311 AF_PACKET ''00:00:00:00:00:01''
       None (Some ''ff:ff:ff:ff:ff:ff'')"

definition inet_address_py310 :: snicaddr where
  "inet_address_py310 =
     nic_address str_family_py310 AF_INET ''192.168.1.10''
       (Some ''255.255.255.0'') (Some ''192.168.1.255'')"


section \<open>Notions of the specification\<close>

text \<open>
  The classification of an address family in the words of the specification: a family
  that indicates IPv4, one that indicates link-layer (MAC) addresses, or any other. It is
  a property of the family, not of the text an interpreter prints for it.
\<close>

datatype family_kind = IPv4 | LinkLayer | Other

fun spec_family_kind :: "AddressFamily \<Rightarrow> family_kind" where
  "spec_family_kind AF_INET = IPv4"
| "spec_family_kind AF_PACKET = LinkLayer"
| "spec_family_kind AF_INET6 = Other"




text \<open>
  \<open>adds p line j\<close>: the statement \<open>p\<close> always ends normally and writes \<open>line\<close> to the
  console exactly \<open>j\<close> times.
\<close>

definition adds :: "prog \<Rightarrow> string \<Rightarrow> nat \<Rightarrow> bool" where
  "adds p line j =
     (\<forall>s. fst (p s) = None
          \<and> count_list (console (snd (p s))) line = count_list (console s) line + j)"

section \<open>Running statement lists\<close>

declare str_digits.simps [simp del]

lemma seq_append:
  "seq (ps @ qs) s = (case seq ps s of (Some e, s') \<Rightarrow> (Some e, s') | (None, s') \<Rightarrow> seq qs s')"
  by (induction ps arbitrary: s) (auto split: prod.splits option.splits)

declare seq.simps(2) [simp del]

lemma seq_stmt: "seq (stmt f # ps) s = seq ps (f s)"
  by (simp add: stmt_def seq.simps(2))

lemma seq_skip: "seq (skip # ps) s = seq ps s"
  by (simp add: skip_def seq.simps(2))

lemma seq_raise: "seq (raise e # ps) s = (Some e, s)"
  by (simp add: raise_def seq.simps(2))

lemma seq_print_log_f_Inr: "seq (print_log_f (Inr text) # ps) s = seq ps (print_log text s)"
  by (simp add: print_log_f_def seq.simps(2))

lemma seq_print_log_f_Inl: "seq (print_log_f (Inl e) # ps) s = (Some e, s)"
  by (simp add: print_log_f_def seq.simps(2))

lemma seq_seq: "seq (seq qs # ps) s = seq (qs @ ps) s"
  by (simp add: seq_append seq.simps(2) split: prod.splits option.splits)

lemma fstr_Inr: "fstr label (Inr v) = Inr (label @ v)"
  by (simp add: fstr_def)

lemma fstr_Inl: "fstr label (Inl e) = Inl e"
  by (simp add: fstr_def)

lemmas seq_rules = seq.simps(1) seq_stmt seq_skip seq_raise seq_print_log_f_Inr seq_print_log_f_Inl
  seq_seq fstr_Inr fstr_Inl

subsection \<open>What the statements write\<close>

lemma console_print: "console (print text s) = console s @ [text]"
  by (simp add: print_def)



lemma console_logging_info: "console (logging_info text s) = console s"
  by (simp add: logging_info_def split: root_logger.splits)



lemma console_print_log: "console (print_log text s) = console s @ [text]"
  by (simp add: print_log_def console_print console_logging_info)



lemmas console_rules = console_print console_logging_info console_print_log


section \<open>Values of the size formatter\<close>

lemma get_size_0: "get_size (PyInt 0) ''B'' = Inr (Some ''0.00B'')"
  by code_simp

lemma get_size_1023: "get_size (PyInt 1023) ''B'' = Inr (Some ''1023.00B'')"
  by code_simp

lemma get_size_1024: "get_size (PyInt 1024) ''B'' = Inr (Some ''1.00KB'')"
  by code_simp

lemma get_size_1024_sq: "get_size (PyInt (1024 * 1024)) ''B'' = Inr (Some ''1.00MB'')"
  by code_simp

lemma get_size_1024_pow5: "get_size (PyInt (1024 ^ 5)) ''B'' = Inr (Some ''1.00PB'')"
  by code_simp

lemma get_size_1024_pow6: "get_size (PyInt (1024 ^ 6)) ''B'' = Inr None"
  by code_simp

section \<open>Console and log file carry the same facts\<close>


























lemma seq_single: "seq [p] s = p s"
  by (cases "p s") (auto simp: seq.simps(2) split: option.splits)



section \<open>Evaluating the example hosts\<close>

lemma str_get_size_0: "str_get_size (PyInt 0) = Inr ''0.00B''"
  by code_simp

lemma str_get_size_1024: "str_get_size (PyInt 1024) = Inr ''1.00KB''"
  by code_simp

lemma str_get_size_zero_float: "str_get_size (PyFloat zero_float) = Inr ''0.00B''"
  by code_simp

lemma format_2f_zero_float: "format_2f zero_float = ''0.00''"
  by code_simp

lemma str_int_small:
  "str_int 0 = ''0''" "str_int 1 = ''1''" "str_int 2 = ''2''" "str_int 4 = ''4''"
  "str_int 6 = ''6''" "str_int 17 = ''17''"
  by code_simp+

lemma started_sink_fields:
  "console started_sink = []" "logfile started_sink = []" "logger started_sink = File_Info"
  by (simp_all add: started_sink_def)


lemmas method_defs = system_info_def proc_info_def cpufreq_field_def core_line_def
  address_block_def interface_block_def network_info_def usage_lines_def partition_block_def
  disk_info_def truthy_def sswap_len_def swap_lines_def ram_info_def call_all_def

lemmas example_values = str_get_size_0 str_get_size_1024 str_get_size_zero_float
  format_2f_zero_float str_int_small str_int_opt_def str_opt_def str_float_zero_def

lemmas example_defs = ResourceMonitor_init_def example_os_def example_usage_def

lemma print_literal:
  "print t \<lparr>console = c, logfile = l, logger = g\<rparr> = \<lparr>console = c @ [t], logfile = l, logger = g\<rparr>"
  by (simp add: print_def)

lemma logging_info_literal:
  "logging_info t \<lparr>console = c, logfile = l, logger = File_Info\<rparr>
     = \<lparr>console = c, logfile = l @ [t], logger = File_Info\<rparr>"
  by (simp add: logging_info_def)

lemma print_log_literal:
  "print_log t \<lparr>console = c, logfile = l, logger = File_Info\<rparr>
     = \<lparr>console = c @ [t], logfile = l @ [t], logger = File_Info\<rparr>"
  by (simp add: print_log_def print_literal logging_info_literal)

lemmas sink_rules = print_literal logging_info_literal print_log_literal
  started_sink_def empty_sink_def

lemma get_size_zero_float: "get_size (PyFloat zero_float) ''B'' = Inr (Some ''0.00B'')"
  by code_simp

section \<open>The disk domain\<close>

lemma disk_info_loop:
  "disk_info self os s =
     seq (map (partition_block os) (partitions self))
       (logging_info txt_disk_header (print (banner 10 txt_disk_header) s))"
  by (simp add: disk_info_def seq_stmt seq_single)

lemma partition_block_denied:
  assumes "os_disk_usage os (mountpoint p) = Inl PermissionError"
  shows "partition_block os p s =
           (None, print_log (txt_fstype @ device p @ '': '' @ fstype p)
                    (logging_info (txt_partition_header @ device p)
                       (print (banner 5 (txt_partition_header @ device p)) s)))"
  using assms by (simp add: partition_block_def seq_rules)


section \<open>The network domain\<close>

lemma address_block_result:
  "address_block n a s =
     (None,
      print_log (txt_if_broadcast @ n @ '': '' @ str_opt (broadcast a))
        (print_log (txt_if_netmask @ n @ '': '' @ str_opt (netmask a))
          (print_log ((if family a = ''AddressFamily.AF_INET'' then txt_if_ip else txt_if_mac)
                       @ n @ '': '' @ address a)
            (print_log (txt_if_type @ n @ '': '' @ family a)
              (logging_info (txt_interface_header @ n)
                (print (banner 5 (txt_interface_header @ n)) s))))))"
  by (simp add: address_block_def seq_rules)

lemma address_block_console:
  "console (snd (address_block n a s)) =
     console s @
       [banner 5 (txt_interface_header @ n),
        txt_if_type @ n @ '': '' @ family a,
        (if family a = ''AddressFamily.AF_INET'' then txt_if_ip else txt_if_mac)
          @ n @ '': '' @ address a,
        txt_if_netmask @ n @ '': '' @ str_opt (netmask a),
        txt_if_broadcast @ n @ '': '' @ str_opt (broadcast a)]"
  by (simp add: address_block_result console_rules)

lemma txt_if_ip_neq_mac: "txt_if_ip \<noteq> txt_if_mac"
  by (simp add: txt_if_ip_def txt_if_mac_def)

subsection \<open>Counting a header on the console\<close>

lemma banner_inject: "banner n t = banner n u \<longleftrightarrow> t = u"
  by (simp add: banner_def)

lemma banner_5_neq_10: "banner 10 t \<noteq> banner 5 u"
  by (simp add: banner_def eval_nat_numeral)

lemma text_neq_banner:
  assumes "x \<noteq> []" and "hd x \<noteq> CHR ''=''"
  shows "x @ r \<noteq> banner 5 t"
proof
  assume "x @ r = banner 5 t"
  then have "hd (x @ r) = hd (banner 5 t)" by simp
  with assms show False by (simp add: banner_def eval_nat_numeral)
qed

lemma network_texts:
  "txt_if_type \<noteq> [] \<and> hd txt_if_type \<noteq> CHR ''=''"
  "txt_if_ip \<noteq> [] \<and> hd txt_if_ip \<noteq> CHR ''=''"
  "txt_if_mac \<noteq> [] \<and> hd txt_if_mac \<noteq> CHR ''=''"
  "txt_if_netmask \<noteq> [] \<and> hd txt_if_netmask \<noteq> CHR ''=''"
  "txt_if_broadcast \<noteq> [] \<and> hd txt_if_broadcast \<noteq> CHR ''=''"
  "txt_bytes_sent \<noteq> [] \<and> hd txt_bytes_sent \<noteq> CHR ''=''"
  "txt_bytes_recv \<noteq> [] \<and> hd txt_bytes_recv \<noteq> CHR ''=''"
  by (simp_all add: txt_if_type_def txt_if_ip_def txt_if_mac_def txt_if_netmask_def
      txt_if_broadcast_def txt_bytes_sent_def txt_bytes_recv_def)

lemma adds_address_block:
  "adds (address_block n a) (banner 5 (txt_interface_header @ m)) (if n = m then 1 else 0)"
  unfolding adds_def
  by (simp add: address_block_result console_rules banner_inject
      text_neq_banner network_texts)

lemma adds_seq_map:
  assumes "\<And>x. x \<in> set xs \<Longrightarrow> adds (f x) line (g x)"
  shows "adds (seq (map f xs)) line (sum_list (map g xs))"
  using assms
proof (induction xs)
  case Nil
  then show ?case by (simp add: adds_def)
next
  case (Cons x xs)
  have x: "adds (f x) line (g x)" and rest: "adds (seq (map f xs)) line (sum_list (map g xs))"
    using Cons by simp_all
  show ?case
    unfolding adds_def
  proof
    fix s
    obtain s' where fx: "f x s = (None, s')"
      using x unfolding adds_def by (metis prod.collapse)
    from x fx have c1: "count_list (console s') line = count_list (console s) line + g x"
      unfolding adds_def by (metis snd_conv)
    from rest have c2: "fst (seq (map f xs) s') = None
        \<and> count_list (console (snd (seq (map f xs) s'))) line
            = count_list (console s') line + sum_list (map g xs)"
      unfolding adds_def by blast
    from fx c1 c2
    show "fst (seq (map f (x # xs)) s) = None
        \<and> count_list (console (snd (seq (map f (x # xs)) s))) line
            = count_list (console s) line + sum_list (map g (x # xs))"
      by (simp add: seq.simps(2))
  qed
qed

lemma adds_interface_block:
  "adds (interface_block (n, as)) (banner 5 (txt_interface_header @ m))
     (if n = m then length as else 0)"
proof -
  have "adds (seq (map (address_block n) as)) (banner 5 (txt_interface_header @ m))
          (sum_list (map (\<lambda>a. if n = m then 1 else 0) as))"
    by (rule adds_seq_map) (rule adds_address_block)
  moreover have "sum_list (map (\<lambda>a. if n = m then 1 else 0) as) = (if n = m then length as else 0)"
    by (induction as) simp_all
  ultimately show ?thesis
    by (simp add: interface_block_def)
qed

lemma sum_list_distinct_key:
  assumes "distinct (map fst xs)" and "(m, as) \<in> set xs"
  shows "sum_list (map (\<lambda>item. if fst item = m then length (snd item) else 0) xs) = length as"
  using assms
proof (induction xs)
  case Nil
  then show ?case by simp
next
  case (Cons x xs)
  show ?case
  proof (cases "x = (m, as)")
    case True
    with Cons.prems have "m \<notin> fst ` set xs" by simp
    then have "sum_list (map (\<lambda>item. if fst item = m then length (snd item) else 0) xs) = 0"
      by (induction xs) auto
    with True show ?thesis by simp
  next
    case False
    with Cons.prems have in_rest: "(m, as) \<in> set xs" by simp
    with Cons.prems have "fst x \<noteq> m" by (auto simp: image_iff)
    with Cons.IH in_rest Cons.prems show ?thesis by simp
  qed
qed

lemma adds_interface_loop:
  assumes "distinct (map fst xs)" and "(m, as) \<in> set xs"
  shows "adds (seq (map interface_block xs)) (banner 5 (txt_interface_header @ m)) (length as)"
proof -
  have "adds (seq (map interface_block xs)) (banner 5 (txt_interface_header @ m))
          (sum_list (map (\<lambda>item. if fst item = m then length (snd item) else 0) xs))"
  proof (rule adds_seq_map)
    fix x :: "string \<times> snicaddr list"
    show "adds (interface_block x) (banner 5 (txt_interface_header @ m))
            (if fst x = m then length (snd x) else 0)"
      using adds_interface_block[of "fst x" "snd x" m] by simp
  qed
  with sum_list_distinct_key[OF assms] show ?thesis by simp
qed

lemma count_tail:
  assumes "l1 \<noteq> [] \<and> hd l1 \<noteq> CHR ''=''" and "l2 \<noteq> [] \<and> hd l2 \<noteq> CHR ''=''"
  shows "count_list (console (snd (seq [print_log_f (fstr l1 r1), print_log_f (fstr l2 r2)] s)))
           (banner 5 t) = count_list (console s) (banner 5 t)"
  using assms
  by (cases r1; cases r2) (simp_all add: seq_rules console_rules text_neq_banner)

lemma network_info_count:
  assumes "distinct (map fst (if_addrs self))" and "(m, as) \<in> set (if_addrs self)"
  shows "count_list (console (snd (network_info self s))) (banner 5 (txt_interface_header @ m))
           = count_list (console s) (banner 5 (txt_interface_header @ m)) + length as"
proof -
  let ?line = "banner 5 (txt_interface_header @ m)"
  let ?s0 = "logging_info txt_network_header (print (banner 10 txt_network_header) s)"
  let ?tail = "[print_log_f (fstr txt_bytes_sent (str_get_size (PyInt (bytes_sent (net_io self))))),
                print_log_f (fstr txt_bytes_recv (str_get_size (PyInt (bytes_recv (net_io self)))))]"
  have c0: "count_list (console ?s0) ?line = count_list (console s) ?line"
    by (simp add: console_rules banner_5_neq_10)
  have loop: "adds (seq (map interface_block (if_addrs self))) ?line (length as)"
    by (rule adds_interface_loop[OF assms])
  obtain s' where run: "seq (map interface_block (if_addrs self)) ?s0 = (None, s')"
    using loop unfolding adds_def by (metis prod.collapse)
  from loop run have c1: "count_list (console s') ?line = count_list (console ?s0) ?line + length as"
    unfolding adds_def by (metis snd_conv)
  have "network_info self s = seq (map interface_block (if_addrs self) @ ?tail) ?s0"
    by (simp add: network_info_def seq_stmt seq_seq)
  also have "\<dots> = seq ?tail s'"
    by (simp add: seq_append run)
  finally have "count_list (console (snd (network_info self s))) ?line = count_list (console s') ?line"
    by (simp only: count_tail[OF network_texts(6) network_texts(7)])
  with c0 c1 show ?thesis by simp
qed

section \<open>Properties of the monitor\<close>

subsection \<open>The test vectors of the size formatter\<close>

text \<open>
  Claim C1, as stated: with the default suffix, \<open>get_size\<close> gives \<open>0.00B\<close> at 0,
  \<open>1023.00B\<close> at 1023, \<open>1.00K\<close> at 1024 and \<open>1.00M\<close> at 1024 * 1024. The last two fail:
  the suffix follows the unit symbol, so 1024 bytes are rendered \<open>1.00KB\<close>.
\<close>

theorem get_size_test_vectors_counterexample:
  "get_size (PyInt 1024) ''B'' \<noteq> Inr (Some ''1.00K'')"
  by (simp add: get_size_1024)

text \<open>
  Claim C1, amended: with the default suffix \<open>B\<close>, \<open>get_size\<close> gives \<open>0.00B\<close> at 0,
  \<open>1023.00B\<close> at 1023, \<open>1.00KB\<close> at 1024 and \<open>1.00MB\<close> at 1024 * 1024.
\<close>

theorem get_size_test_vectors:
  "get_size (PyInt 0) ''B'' = Inr (Some ''0.00B'')
   \<and> get_size (PyInt 1023) ''B'' = Inr (Some ''1023.00B'')
   \<and> get_size (PyInt 1024) ''B'' = Inr (Some ''1.00KB'')
   \<and> get_size (PyInt (1024 * 1024)) ''B'' = Inr (Some ''1.00MB'')"
  by (simp only: get_size_0 get_size_1023 get_size_1024 get_size_1024_sq simp_thms)

subsection \<open>Inputs beyond the largest unit\<close>

text \<open>
  Claim C2: for every non-negative byte count \<open>get_size\<close> returns a string, and from
  \<open>1024 ^ 5\<close> on the value in the unit \<open>P\<close>. At \<open>1024 ^ 5\<close> it does. At \<open>1024 ^ 6\<close> it
  does not: the value is still not below 1024 at the last unit, the loop ends, and the
  function returns \<open>None\<close>, although it is declared and documented to return a string.
\<close>

theorem get_size_exbibyte_returns_None:
  "get_size (PyInt (1024 ^ 5)) ''B'' = Inr (Some ''1.00PB'')
   \<and> get_size (PyInt (1024 ^ 6)) ''B'' = Inr None"
  by (simp only: get_size_1024_pow5 get_size_1024_pow6 simp_thms)

subsection \<open>The swap section\<close>

text \<open>
  Claim C3: when swap is reported absent, with a total of zero, \<open>ram_info\<close> writes no
  swap section. The code does not: \<open>psutil\<close> reports absent swap as the tuple of zeros,
  a tuple is true whatever it holds, so the guard \<^verbatim>\<open>if self.swap:\<close> lets the section
  through, and the header and the four swap lines are written with zeros.
\<close>

theorem ram_info_swapless_host_writes_swap_section:
  "swap (ResourceMonitor_init example_os)
     = Some \<lparr>sswap_total = 0, sswap_used = 0, sswap_free = 0, sswap_percent = zero_float,
             sswap_sin = 0, sswap_sout = 0\<rparr>
   \<and> ram_info str_float_zero (ResourceMonitor_init example_os) started_sink =
       (None,
        \<lparr>console =
           [banner 10 txt_ram_header,
            txt_ram_total @ ''1.00KB'',
            txt_ram_available @ ''1.00KB'',
            txt_ram_used @ ''0.00B'',
            txt_ram_percent @ ''0.00B'',
            banner 5 txt_swap_header,
            txt_swap_total @ ''0.00B'',
            txt_swap_free @ ''0.00B'',
            txt_swap_used @ ''0.00B'',
            txt_swap_percent @ ''0.0%''],
         logfile =
           [txt_ram_header,
            txt_ram_total @ ''1.00KB'',
            txt_ram_available @ ''1.00KB'',
            txt_ram_used @ ''0.00B'',
            txt_ram_percent @ ''0.00B'',
            txt_swap_header,
            txt_swap_total @ ''0.00B'',
            txt_swap_free @ ''0.00B'',
            txt_swap_used @ ''0.00B'',
            txt_swap_percent @ ''0.0%''],
         logger = File_Info\<rparr>)"
  by (simp add: method_defs seq_rules sink_rules example_values example_defs)

subsection \<open>A partition that refuses the usage query\<close>

text \<open>
  Claim C4: when the usage query of one partition raises a permission error,
  \<open>disk_info\<close> still writes the lines that identify the partition and its file system,
  writes no usage line for it, and goes on with every partition after it. Here \<open>s1\<close> is
  the sink when the loop reaches that partition, the partitions before it having been
  processed without an exception that leaves the method.
\<close>

theorem disk_info_permission_denied:
  assumes "partitions self = before @ p # after"
    and "os_disk_usage os (mountpoint p) = Inl PermissionError"
    and "disk_info (self\<lparr>partitions := before\<rparr>) os s = (None, s1)"
  shows "disk_info self os s =
           seq (map (partition_block os) after)
             (print_log (txt_fstype @ device p @ '': '' @ fstype p)
                (logging_info (txt_partition_header @ device p)
                   (print (banner 5 (txt_partition_header @ device p)) s1)))
         \<and> console (print_log (txt_fstype @ device p @ '': '' @ fstype p)
                (logging_info (txt_partition_header @ device p)
                   (print (banner 5 (txt_partition_header @ device p)) s1)))
           = console s1 @ [banner 5 (txt_partition_header @ device p),
                           txt_fstype @ device p @ '': '' @ fstype p]"
proof -
  let ?s0 = "logging_info txt_disk_header (print (banner 10 txt_disk_header) s)"
  from assms(3) have before: "seq (map (partition_block os) before) ?s0 = (None, s1)"
    by (simp add: disk_info_loop)
  have "disk_info self os s
          = seq (map (partition_block os) before @ map (partition_block os) (p # after)) ?s0"
    by (simp add: disk_info_loop assms(1))
  also have "\<dots> = seq (partition_block os p # map (partition_block os) after) s1"
    by (simp add: seq_append before)
  also have "\<dots> = seq (map (partition_block os) after)
                      (print_log (txt_fstype @ device p @ '': '' @ fstype p)
                         (logging_info (txt_partition_header @ device p)
                            (print (banner 5 (txt_partition_header @ device p)) s1)))"
    by (simp add: seq.simps(2) partition_block_denied[OF assms(2)])
  finally show ?thesis
    by (simp add: console_rules)
qed

theorem disk_info_permission_denied_witness:
  "partitions (ResourceMonitor_init example_os)
     = [] @ \<lparr>device = ''/dev/sda1'', mountpoint = ''/'', fstype = ''ext4''\<rparr>
          # [\<lparr>device = ''/dev/sdb1'', mountpoint = ''/mnt'', fstype = ''ext4''\<rparr>]
   \<and> os_disk_usage example_os (mountpoint \<lparr>device = ''/dev/sda1'', mountpoint = ''/'', fstype = ''ext4''\<rparr>)
       = Inl PermissionError
   \<and> disk_info (ResourceMonitor_init example_os) example_os started_sink =
       (None,
        \<lparr>console =
           [banner 10 txt_disk_header,
            banner 5 (txt_partition_header @ ''/dev/sda1''),
            txt_fstype @ ''/dev/sda1: ext4'',
            banner 5 (txt_partition_header @ ''/dev/sdb1''),
            txt_fstype @ ''/dev/sdb1: ext4'',
            txt_disk_total @ ''/dev/sdb1: 1.00KB'',
            txt_disk_used @ ''/dev/sdb1: 0.00B'',
            txt_disk_free @ ''/dev/sdb1: 1.00KB'',
            txt_disk_percent @ ''/dev/sdb1: 0.00B''],
         logfile =
           [txt_disk_header,
            txt_partition_header @ ''/dev/sda1'',
            txt_fstype @ ''/dev/sda1: ext4'',
            txt_partition_header @ ''/dev/sdb1'',
            txt_fstype @ ''/dev/sdb1: ext4'',
            txt_disk_total @ ''/dev/sdb1: 1.00KB'',
            txt_disk_used @ ''/dev/sdb1: 0.00B'',
            txt_disk_free @ ''/dev/sdb1: 1.00KB'',
            txt_disk_percent @ ''/dev/sdb1: 0.00B''],
         logger = File_Info\<rparr>)"
proof -
  let ?p = "\<lparr>device = ''/dev/sda1'', mountpoint = ''/'', fstype = ''ext4''\<rparr>"
  let ?q = "\<lparr>device = ''/dev/sdb1'', mountpoint = ''/mnt'', fstype = ''ext4''\<rparr>"
  let ?s1 = "\<lparr>console = [banner 10 txt_disk_header], logfile = [txt_disk_header],
              logger = File_Info\<rparr>"
  have a: "partitions (ResourceMonitor_init example_os) = [] @ ?p # [?q]"
    by (simp add: example_defs)
  have b: "os_disk_usage example_os (mountpoint ?p) = Inl PermissionError"
    by (simp add: example_defs)
  have c: "disk_info ((ResourceMonitor_init example_os)\<lparr>partitions := []\<rparr>) example_os started_sink
             = (None, ?s1)"
    by (simp add: method_defs seq_rules sink_rules)
  have "disk_info (ResourceMonitor_init example_os) example_os started_sink
          = seq (map (partition_block example_os) [?q])
              (print_log (txt_fstype @ device ?p @ '': '' @ fstype ?p)
                 (logging_info (txt_partition_header @ device ?p)
                    (print (banner 5 (txt_partition_header @ device ?p)) ?s1)))"
    using disk_info_permission_denied[OF a b c] by (rule conjunct1)
  also have "\<dots> = (None,
        \<lparr>console =
           [banner 10 txt_disk_header,
            banner 5 (txt_partition_header @ ''/dev/sda1''),
            txt_fstype @ ''/dev/sda1: ext4'',
            banner 5 (txt_partition_header @ ''/dev/sdb1''),
            txt_fstype @ ''/dev/sdb1: ext4'',
            txt_disk_total @ ''/dev/sdb1: 1.00KB'',
            txt_disk_used @ ''/dev/sdb1: 0.00B'',
            txt_disk_free @ ''/dev/sdb1: 1.00KB'',
            txt_disk_percent @ ''/dev/sdb1: 0.00B''],
         logfile =
           [txt_disk_header,
            txt_partition_header @ ''/dev/sda1'',
            txt_fstype @ ''/dev/sda1: ext4'',
            txt_partition_header @ ''/dev/sdb1'',
            txt_fstype @ ''/dev/sdb1: ext4'',
            txt_disk_total @ ''/dev/sdb1: 1.00KB'',
            txt_disk_used @ ''/dev/sdb1: 0.00B'',
            txt_disk_free @ ''/dev/sdb1: 1.00KB'',
            txt_disk_percent @ ''/dev/sdb1: 0.00B''],
         logger = File_Info\<rparr>)"
    by (simp add: method_defs seq_rules sink_rules example_values example_defs)
  finally show ?thesis
    using a b by simp
qed

subsection \<open>What is frozen in the monitor\<close>




subsection \<open>How percentages are written\<close>

text \<open>
  Claim C6: the percentage of primary memory and the percentage of a disk partition are
  written as \<open>get_size\<close> renders them, as if they were byte counts, whereas the
  percentage of swap is written as the number itself followed by \<open>%\<close>. The lines are
  given for a monitor with swap and for a partition whose usage query succeeds, where no
  call of \<open>get_size\<close> raises.
\<close>

theorem percent_rendering:
  "(get_size (PyInt (svmem_total (svmem self))) ''B'' = Inr mt
     \<and> get_size (PyInt (svmem_available (svmem self))) ''B'' = Inr ma
     \<and> get_size (PyInt (svmem_used (svmem self))) ''B'' = Inr mu
     \<and> get_size (PyFloat (svmem_percent (svmem self))) ''B'' = Inr mp
     \<and> swap self = Some sw
     \<and> get_size (PyInt (sswap_total sw)) ''B'' = Inr st
     \<and> get_size (PyInt (sswap_free sw)) ''B'' = Inr sf
     \<and> get_size (PyInt (sswap_used sw)) ''B'' = Inr su
    \<longrightarrow>
    console (snd (ram_info str_float self s)) =
      console s @
        [banner 10 txt_ram_header,
         txt_ram_total @ str_opt mt,
         txt_ram_available @ str_opt ma,
         txt_ram_used @ str_opt mu,
         txt_ram_percent @ str_opt mp,
         banner 5 txt_swap_header,
         txt_swap_total @ str_opt st,
         txt_swap_free @ str_opt sf,
         txt_swap_used @ str_opt su,
         txt_swap_percent @ str_float (sswap_percent sw) @ ''%''])
   \<and>
   (os_disk_usage os (mountpoint p) = Inr u
     \<and> get_size (PyInt (sdiskusage_total u)) ''B'' = Inr dt
     \<and> get_size (PyInt (sdiskusage_used u)) ''B'' = Inr du
     \<and> get_size (PyInt (sdiskusage_free u)) ''B'' = Inr df
     \<and> get_size (PyFloat (sdiskusage_percent u)) ''B'' = Inr dp
    \<longrightarrow>
    console (snd (partition_block os p s)) =
      console s @
        [banner 5 (txt_partition_header @ device p),
         txt_fstype @ device p @ '': '' @ fstype p,
         txt_disk_total @ device p @ '': '' @ str_opt dt,
         txt_disk_used @ device p @ '': '' @ str_opt du,
         txt_disk_free @ device p @ '': '' @ str_opt df,
         txt_disk_percent @ device p @ '': '' @ str_opt dp])"
  by (simp add: ram_info_def swap_lines_def truthy_def sswap_len_def partition_block_def
      usage_lines_def str_get_size_def seq_rules console_rules)

theorem percent_rendering_witness:
  "get_size (PyInt 1024) ''B'' = Inr (Some ''1.00KB'')
   \<and> get_size (PyInt 0) ''B'' = Inr (Some ''0.00B'')
   \<and> get_size (PyFloat zero_float) ''B'' = Inr (Some ''0.00B'')
   \<and> svmem (ResourceMonitor_init example_os)
       = \<lparr>svmem_total = 1024, svmem_available = 1024, svmem_percent = zero_float, svmem_used = 0\<rparr>
   \<and> swap (ResourceMonitor_init example_os)
       = Some \<lparr>sswap_total = 0, sswap_used = 0, sswap_free = 0, sswap_percent = zero_float,
               sswap_sin = 0, sswap_sout = 0\<rparr>
   \<and> console (snd (ram_info str_float_zero (ResourceMonitor_init example_os) started_sink)) =
        [banner 10 txt_ram_header,
         txt_ram_total @ ''1.00KB'',
         txt_ram_available @ ''1.00KB'',
         txt_ram_used @ ''0.00B'',
         txt_ram_percent @ ''0.00B'',
         banner 5 txt_swap_header,
         txt_swap_total @ ''0.00B'',
         txt_swap_free @ ''0.00B'',
         txt_swap_used @ ''0.00B'',
         txt_swap_percent @ ''0.0%'']
   \<and> os_disk_usage example_os ''/mnt''
       = Inr \<lparr>sdiskusage_total = 1024, sdiskusage_used = 0, sdiskusage_free = 1024,
               sdiskusage_percent = zero_float\<rparr>
   \<and> console (snd (partition_block example_os
          \<lparr>device = ''/dev/sdb1'', mountpoint = ''/mnt'', fstype = ''ext4''\<rparr> started_sink)) =
        [banner 5 (txt_partition_header @ ''/dev/sdb1''),
         txt_fstype @ ''/dev/sdb1: ext4'',
         txt_disk_total @ ''/dev/sdb1: 1.00KB'',
         txt_disk_used @ ''/dev/sdb1: 0.00B'',
         txt_disk_free @ ''/dev/sdb1: 1.00KB'',
         txt_disk_percent @ ''/dev/sdb1: 0.00B'']"
proof -
  let ?sw = "\<lparr>sswap_total = 0, sswap_used = 0, sswap_free = 0, sswap_percent = zero_float,
              sswap_sin = 0, sswap_sout = 0\<rparr>"
  let ?u = "\<lparr>sdiskusage_total = 1024, sdiskusage_used = 0, sdiskusage_free = 1024,
             sdiskusage_percent = zero_float\<rparr>"
  let ?p = "\<lparr>device = ''/dev/sdb1'', mountpoint = ''/mnt'', fstype = ''ext4''\<rparr>"
  have g: "get_size (PyInt 1024) ''B'' = Inr (Some ''1.00KB'')"
    "get_size (PyInt 0) ''B'' = Inr (Some ''0.00B'')"
    "get_size (PyFloat zero_float) ''B'' = Inr (Some ''0.00B'')"
    by (simp_all add: get_size_1024 get_size_0 get_size_zero_float)
  have m: "svmem (ResourceMonitor_init example_os)
       = \<lparr>svmem_total = 1024, svmem_available = 1024, svmem_percent = zero_float, svmem_used = 0\<rparr>"
    and w: "swap (ResourceMonitor_init example_os) = Some ?sw"
    and d: "os_disk_usage example_os ''/mnt'' = Inr ?u"
    by (simp_all add: example_defs)
  from percent_rendering[of "ResourceMonitor_init example_os" "Some ''1.00KB''" "Some ''1.00KB''"
      "Some ''0.00B''" "Some ''0.00B''" ?sw "Some ''0.00B''" "Some ''0.00B''" "Some ''0.00B''"
      str_float_zero started_sink example_os ?p ?u "Some ''1.00KB''" "Some ''0.00B''"
      "Some ''1.00KB''" "Some ''0.00B''"]
    g m w d
  show ?thesis
    by (simp add: started_sink_fields str_opt_def str_float_zero_def)
qed

subsection \<open>Address families\<close>

text \<open>
  Claim C7: every address is classified by its family as IPv4, link-layer or other, gets
  four lines whatever the class, and an IPv4 address is labelled distinctly from a
  link-layer one. The code attempts the distinction by comparing \<open>str(address.family)\<close>
  with the texts \<^verbatim>\<open>AddressFamily.AF_INET\<close> and \<^verbatim>\<open>AddressFamily.AF_PACKET\<close>, and
  misses it: since Python 3.11 the text of a family is its number, neither comparison
  holds, and the \<open>else\<close> branch writes the IPv4 address of the example interface under
  the MAC label, the label its link-layer address gets too. Under the rendering of Python
  3.10 the same address is written under the IP label, a different text. Four lines follow
  the header in each case.
\<close>

theorem ipv4_address_labelled_as_mac:
  "spec_family_kind AF_INET = IPv4
   \<and> spec_family_kind AF_PACKET = LinkLayer
   \<and> console (snd (address_block ''eth0'' inet_address_py311 started_sink)) =
       [banner 5 (txt_interface_header @ ''eth0''),
        txt_if_type @ ''eth0: 2'',
        txt_if_mac @ ''eth0: 192.168.1.10'',
        txt_if_netmask @ ''eth0: 255.255.255.0'',
        txt_if_broadcast @ ''eth0: 192.168.1.255'']
   \<and> console (snd (address_block ''eth0'' packet_address_py311 started_sink)) =
       [banner 5 (txt_interface_header @ ''eth0''),
        txt_if_type @ ''eth0: 17'',
        txt_if_mac @ ''eth0: 00:00:00:00:00:01'',
        txt_if_netmask @ ''eth0: None'',
        txt_if_broadcast @ ''eth0: ff:ff:ff:ff:ff:ff'']
   \<and> console (snd (address_block ''eth0'' inet_address_py310 started_sink)) =
       [banner 5 (txt_interface_header @ ''eth0''),
        txt_if_type @ ''eth0: AddressFamily.AF_INET'',
        txt_if_ip @ ''eth0: 192.168.1.10'',
        txt_if_netmask @ ''eth0: 255.255.255.0'',
        txt_if_broadcast @ ''eth0: 192.168.1.255'']
   \<and> txt_if_ip \<noteq> txt_if_mac"
  by (simp add: address_block_console started_sink_fields txt_if_ip_neq_mac
      inet_address_py311_def packet_address_py311_def inet_address_py310_def nic_address_def
      str_family_py311_def str_family_py310_def str_int_small str_opt_def)

subsection \<open>A host without a frequency reading\<close>

text \<open>
  Claim C8: when there is no frequency reading, the monitor is still constructed and the
  processor method leaves the frequency lines out without raising. The monitor is
  constructed, with \<open>cpufreq\<close> set to \<open>None\<close>, but \<open>proc_info\<close> reads
  \<^verbatim>\<open>self.cpufreq.max\<close> without a guard: after the two core counts it raises
  \<open>AttributeError\<close>, and neither the load lines nor any later domain is reached.
\<close>

theorem proc_info_without_frequency_raises:
  "cpufreq (ResourceMonitor_init sensorless_os) = None
   \<and> proc_info str_float_zero (ResourceMonitor_init sensorless_os) sensorless_os started_sink =
       (Some AttributeError,
        \<lparr>console =
           [banner 10 txt_proc_header, txt_physical_cores @ ''2'', txt_logical_cores @ ''4''],
         logfile =
           [txt_proc_header, txt_physical_cores @ ''2'', txt_logical_cores @ ''4''],
         logger = File_Info\<rparr>)"
  by (simp add: method_defs seq_rules sink_rules example_values example_defs sensorless_os_def)

subsection \<open>Console and log file\<close>




subsection \<open>The interface header\<close>

text \<open>
  Claim C10: the header of an interface is written inside the loop over its addresses,
  so an interface with \<open>n\<close> addresses has its header on the console \<open>n\<close> times. The
  interface names are the keys of a dict, hence distinct.
\<close>

theorem interface_header_once_per_address:
  assumes "distinct (map fst (if_addrs self))"
    and "(inteface_name, interface_addresses) \<in> set (if_addrs self)"
  shows "count_list (console (snd (network_info self s)))
             (banner 5 (txt_interface_header @ inteface_name))
           = count_list (console s) (banner 5 (txt_interface_header @ inteface_name))
             + length interface_addresses"
  using assms by (rule network_info_count)

theorem interface_header_once_per_address_witness:
  "distinct (map fst (if_addrs (ResourceMonitor_init example_os)))
   \<and> length (snd (hd (if_addrs (ResourceMonitor_init example_os)))) = 2
   \<and> count_list (console (snd (network_info (ResourceMonitor_init example_os) started_sink)))
         (banner 5 (txt_interface_header @ ''eth0'')) = 2"
proof -
  let ?a1 = "\<lparr>family = ''AddressFamily.AF_INET'', address = ''192.168.1.10'',
             netmask = Some ''255.255.255.0'', broadcast = Some ''192.168.1.255''\<rparr>"
  let ?a2 = "\<lparr>family = ''AddressFamily.AF_PACKET'', address = ''00:00:00:00:00:01'',
             netmask = None, broadcast = Some ''ff:ff:ff:ff:ff:ff''\<rparr>"
  have d: "distinct (map fst (if_addrs (ResourceMonitor_init example_os)))"
    by (simp add: example_defs)
  have m: "(''eth0'', [?a1, ?a2]) \<in> set (if_addrs (ResourceMonitor_init example_os))"
    by (simp add: example_defs)
  have l: "length (snd (hd (if_addrs (ResourceMonitor_init example_os)))) = 2"
    by (simp add: example_defs)
  from interface_header_once_per_address[OF d m, of started_sink] d l
  show ?thesis
    by (simp add: started_sink_fields)
qed

end
